theory Spec2Isabelle
  imports Complex_Main
begin

section \<open>Strings, numbers and dictionaries of the parser\<close>

text \<open>
  The development follows \<^verbatim>\<open>src/docx_parser.py\<close>, class \<^verbatim>\<open>DocxParser\<close>. A Python
  \<^verbatim>\<open>str\<close> is a sequence of Unicode code points, and most labels of the parser are
  Vietnamese, so a character is its code point and a string a list of code points.
  A Python \<^verbatim>\<open>float\<close> is taken as the rational number it denotes: arithmetic is exact,
  and rounding, infinities and NaN are outside this model.
\<close>

type_synonym pychar = nat
type_synonym pystr = "pychar list"

definition ascii :: "string \<Rightarrow> pystr" where
  "ascii s = map of_char s"

text \<open>
  The values the extractors store in their result dictionaries, and the dictionaries
  themselves, in the order of the dict displays of the source.
\<close>

datatype pyval =
    PNone
  | PStr pystr
  | PFloat rat
  | PInt int
  | PDict "(string \<times> pyval) list"

type_synonym pydict = "(string \<times> pyval) list"

text \<open>
  The exceptions of this development: a division by zero, \<^verbatim>\<open>int\<close> of an infinite
  float, a pattern that \<^verbatim>\<open>re\<close> cannot compile, and \<^verbatim>\<open>group(1)\<close> of a match whose
  pattern has no group.
\<close>

datatype error = ZeroDivisionError | OverflowError | ReError | IndexError

text \<open>
  The parser object after \<^verbatim>\<open>__init__\<close>: the text of all non-empty paragraphs joined by
  newlines, and the tables as grids of cell texts. Reading the DOCX container is the
  work of the \<^verbatim>\<open>docx\<close> package and is not modelled.
\<close>

record docx_parser =
  text_content :: pystr
  tables :: "pystr list list list"

text \<open>
  What the class takes from outside the file: \<^verbatim>\<open>clean_text\<close> and \<^verbatim>\<open>parse_number\<close> are
  imported from \<^verbatim>\<open>src.utils\<close>, which is not among the sources, and the comparison of a
  label character with a text character under \<^verbatim>\<open>re.IGNORECASE\<close> is decided by the case
  tables of the interpreter. They are parameters: \<open>ci_eq env c x\<close> says that the pattern
  character \<open>c\<close> matches the text character \<open>x\<close>. Both helpers are total functions,
  as their contracts demand (the text normalizer never fails, the numeric parser
  returns 0 rather than raise).
\<close>

record env =
  ci_eq :: "pychar \<Rightarrow> pychar \<Rightarrow> bool"
  clean_text :: "pystr \<Rightarrow> pystr"
  parse_number :: "pystr \<Rightarrow> rat"

subsection \<open>Character classes\<close>

text \<open>
  \<^verbatim>\<open>\s\<close> in a \<^verbatim>\<open>str\<close> pattern: the characters for which \<^verbatim>\<open>str.isspace\<close> holds.
\<close>

definition isspace :: "pychar \<Rightarrow> bool" where
  "isspace c \<longleftrightarrow>
     (9 \<le> c \<and> c \<le> 13) \<or> (28 \<le> c \<and> c \<le> 32) \<or> c = 133 \<or> c = 160 \<or> c = 5760 \<or>
     (8192 \<le> c \<and> c \<le> 8202) \<or> c = 8232 \<or> c = 8233 \<or> c = 8239 \<or> c = 8287 \<or> c = 12288"

text \<open>
  \<^verbatim>\<open>\d\<close> in a \<^verbatim>\<open>str\<close> pattern: any Unicode decimal digit (general category Nd), not
  only \<^verbatim>\<open>0\<close> to \<^verbatim>\<open>9\<close>. The digits come in blocks of ten consecutive code points;
  these are the code points of the digit zero of each block (Unicode 14.0, the table of
  CPython 3.11).
\<close>

definition decimal_zeros :: "pychar list" where
  "decimal_zeros =
    [48, 1632, 1776, 1984, 2406, 2534, 2662, 2790, 2918, 3046, 3174, 3302, 3430, 3558,
     3664, 3792, 3872, 4160, 4240, 6112, 6160, 6470, 6608, 6784, 6800, 6992, 7088, 7232,
     7248, 42528, 43216, 43264, 43472, 43504, 43600, 44016, 65296, 66720, 68912, 69734,
     69872, 69942, 70096, 70384, 70736, 70864, 71248, 71360, 71472, 71904, 72016, 72784,
     73040, 73120, 92768, 92864, 93008, 120782, 120792, 120802, 120812, 120822, 123200,
     123632, 125264, 130032]"

definition isdecimal :: "pychar \<Rightarrow> bool" where
  "isdecimal c = list_ex (\<lambda>z. z \<le> c \<and> c < z + 10) decimal_zeros"

text \<open>The class \<^verbatim>\<open>[\d.,]\<close> of \<^verbatim>\<open>_find_number_after_keyword\<close>.\<close>

definition number_char :: "pychar \<Rightarrow> bool" where
  "number_char c \<longleftrightarrow> isdecimal c \<or> c = 46 \<or> c = 44"

subsection \<open>The regular expression of the keyword search\<close>

text \<open>
  \<^verbatim>\<open>regex = rf"{keyword}\s*[:<U+FF1A>]?\s*(.+?)(?:\n|$)"\<close>, searched with
  \<^verbatim>\<open>re.IGNORECASE\<close>. The label is pasted into the pattern as it is; every label of the
  file is free of the special characters of the pattern language, so a label is a
  sequence of literal characters here. The matcher is the backtracking matcher of
  \<^verbatim>\<open>re\<close>, written with continuations: each piece gets the rest of the text and the
  matcher \<open>k\<close> of what follows it in the pattern, tries its longest match first and
  gives characters back while \<open>k\<close> fails. Every matcher returns group 1 of the match.
\<close>

fun re_literal :: "(pychar \<Rightarrow> pychar \<Rightarrow> bool) \<Rightarrow> pystr \<Rightarrow> pystr \<Rightarrow> pystr option" where
  "re_literal ci [] t = Some t"
| "re_literal ci (c # cs) [] = None"
| "re_literal ci (c # cs) (x # t) = (if ci c x then re_literal ci cs t else None)"

text \<open>\<^verbatim>\<open>\s*\<close>, greedy.\<close>

fun re_spaces :: "(pystr \<Rightarrow> pystr option) \<Rightarrow> pystr \<Rightarrow> pystr option" where
  "re_spaces k [] = k []"
| "re_spaces k (x # t) =
     (if isspace x
      then (case re_spaces k t of Some g \<Rightarrow> Some g | None \<Rightarrow> k (x # t))
      else k (x # t))"

text \<open>\<^verbatim>\<open>[:<U+FF1A>]?\<close>: an ASCII colon (58) or a fullwidth colon (65306), taken if it can be.\<close>

definition re_colon :: "(pystr \<Rightarrow> pystr option) \<Rightarrow> pystr \<Rightarrow> pystr option" where
  "re_colon k t =
     (case t of
        [] \<Rightarrow> k []
      | x # r \<Rightarrow>
          if x = 58 \<or> x = 65306
          then (case k r of Some g \<Rightarrow> Some g | None \<Rightarrow> k t)
          else k t)"

text \<open>
  \<^verbatim>\<open>(.+?)(?:\n|$)\<close>: the dot matches every character but the newline (10), at least
  one is needed, and the lazy repetition stops at the first newline or at the end of
  the text.
\<close>

definition re_group :: "pystr \<Rightarrow> pystr option" where
  "re_group t =
     (case t of
        [] \<Rightarrow> None
      | x # r \<Rightarrow> if x = 10 then None else Some (takeWhile (\<lambda>c. c \<noteq> 10) t))"

text \<open>The whole pattern, matched at the beginning of \<open>t\<close>.\<close>

definition re_match :: "(pychar \<Rightarrow> pychar \<Rightarrow> bool) \<Rightarrow> pystr \<Rightarrow> pystr \<Rightarrow> pystr option" where
  "re_match ci keyword t =
     (case re_literal ci keyword t of
        None \<Rightarrow> None
      | Some r \<Rightarrow> re_spaces (re_colon (re_spaces re_group)) r)"

text \<open>\<^verbatim>\<open>re.search\<close>: the match at the leftmost position that has one.\<close>

fun re_search :: "(pychar \<Rightarrow> pychar \<Rightarrow> bool) \<Rightarrow> pystr \<Rightarrow> pystr \<Rightarrow> pystr option" where
  "re_search ci keyword [] = re_match ci keyword []"
| "re_search ci keyword (x # t) =
     (case re_match ci keyword (x # t) of
        Some g \<Rightarrow> Some g
      | None \<Rightarrow> re_search ci keyword t)"

text \<open>
  \<^verbatim>\<open>re.findall\<close> for a pattern \<^verbatim>\<open>[...]+\<close>: the maximal runs of characters of the
  class, from left to right.
\<close>

function re_findall :: "(pychar \<Rightarrow> bool) \<Rightarrow> pystr \<Rightarrow> pystr list" where
  "re_findall p s =
     (case dropWhile (\<lambda>c. \<not> p c) s of
        [] \<Rightarrow> []
      | c # r \<Rightarrow> (c # takeWhile p r) # re_findall p (dropWhile p r))"
  by pat_completeness auto
termination
proof (relation "measure (\<lambda>(p, s). length s)")
  show "wf (measure (\<lambda>(p, s). length s))"
    by simp
next
  fix p :: "pychar \<Rightarrow> bool" and s :: pystr and c r
  assume eq: "dropWhile (\<lambda>c. \<not> p c) s = c # r"
  have "length (dropWhile p r) \<le> length r"
    by (rule length_dropWhile_le)
  also have "length r < length (dropWhile (\<lambda>c. \<not> p c) s)"
    by (simp add: eq)
  also have "\<dots> \<le> length s"
    by (rule length_dropWhile_le)
  finally show "((p, dropWhile p r), (p, s)) \<in> measure (\<lambda>(p, s). length s)"
    by simp
qed

declare re_findall.simps [simp del]

section \<open>The keyword locator\<close>

text \<open>
  \<^verbatim>\<open>_find_value_after_keyword(self, keywords, pattern=None)\<close>. A pattern, when given, is
  taken as the function it computes on the cleaned text: \<open>None\<close> when
  \<^verbatim>\<open>re.search(pattern, value)\<close> finds nothing, else \<^verbatim>\<open>group(1)\<close> of the match, which is
  \<open>None\<close> for a group that took no part in it. No caller in the file passes one. A
  pattern without a group, for which \<^verbatim>\<open>group(1)\<close> raises, is in
  \<open>find_value_after_keyword_re\<close> below.
\<close>

fun find_value_after_keyword ::
  "env \<Rightarrow> docx_parser \<Rightarrow> pystr list \<Rightarrow> (pystr \<Rightarrow> pystr option option) option \<Rightarrow> pystr option" where
  "find_value_after_keyword env self [] pattern = None"
| "find_value_after_keyword env self (keyword # keywords) pattern =
     (case re_search (ci_eq env) keyword (text_content self) of
        None \<Rightarrow> find_value_after_keyword env self keywords pattern
      | Some g \<Rightarrow>
          (let v = clean_text env g in
           case pattern of
             None \<Rightarrow> Some v
           | Some pat \<Rightarrow> (case pat v of Some g1 \<Rightarrow> g1 | None \<Rightarrow> Some v)))"

text \<open>
  \<^verbatim>\<open>_find_number_after_keyword\<close>: \<^verbatim>\<open>if value:\<close> holds for a string that is neither
  \<^verbatim>\<open>None\<close> nor empty, \<^verbatim>\<open>if numbers:\<close> for a list that is not empty.
\<close>

definition find_number_after_keyword :: "env \<Rightarrow> docx_parser \<Rightarrow> pystr list \<Rightarrow> rat" where
  "find_number_after_keyword env self keywords =
     (case find_value_after_keyword env self keywords None of
        None \<Rightarrow> 0
      | Some v \<Rightarrow>
          if v = [] then 0
          else (case re_findall number_char v of
                  [] \<Rightarrow> 0
                | n # ns \<Rightarrow> parse_number env n))"

subsection \<open>Python operators used by the extractors\<close>

text \<open>\<^verbatim>\<open>x or d\<close> for an optional string \<open>x\<close>: \<^verbatim>\<open>None\<close> and the empty string are false.\<close>

definition py_or :: "pystr option \<Rightarrow> pystr \<Rightarrow> pystr" where
  "py_or x d = (case x of None \<Rightarrow> d | Some s \<Rightarrow> if s = [] then d else s)"

text \<open>\<^verbatim>\<open>int(x)\<close> of a number: truncation towards zero.\<close>

definition py_int :: "rat \<Rightarrow> int" where
  "py_int x = (if 0 \<le> x then \<lfloor>x\<rfloor> else \<lceil>x\<rceil>)"

text \<open>\<^verbatim>\<open>a / b\<close> raises \<^verbatim>\<open>ZeroDivisionError\<close> for a zero divisor.\<close>

definition py_truediv :: "rat \<Rightarrow> rat \<Rightarrow> error + rat" where
  "py_truediv a b = (if b = 0 then Inl ZeroDivisionError else Inr (a / b))"

section \<open>The labels and constants of the extractors\<close>

text \<open>
  The keyword lists and the default strings of the source, as code points, in the order
  of the source. The comments give each label without its diacritics.
\<close>

definition name_keywords :: "pystr list" where
  \<comment> \<open>Ho va ten, Ten khach hang, Khach hang, Ho ten\<close>
  "name_keywords =
    [[72, 7885, 32, 118, 224, 32, 116, 234, 110],
     [84, 234, 110, 32, 107, 104, 225, 99, 104, 32, 104, 224, 110, 103],
     [75, 104, 225, 99, 104, 32, 104, 224, 110, 103],
     [72, 7885, 32, 116, 234, 110]]"

definition cccd_keywords :: "pystr list" where
  \<comment> \<open>CCCD, CMND, So CCCD, So CMND, Chung minh nhan dan\<close>
  "cccd_keywords =
    [[67, 67, 67, 68],
     [67, 77, 78, 68],
     [83, 7889, 32, 67, 67, 67, 68],
     [83, 7889, 32, 67, 77, 78, 68],
     [67, 104, 7913, 110, 103, 32, 109, 105, 110, 104, 32, 110, 104, 226, 110, 32, 100, 226, 110]]"

definition address_keywords :: "pystr list" where
  \<comment> \<open>Dia chi, Dia chi thuong tru, Noi cu tru, Cho o\<close>
  "address_keywords =
    [[272, 7883, 97, 32, 99, 104, 7881],
     [272, 7883, 97, 32, 99, 104, 7881, 32, 116, 104, 432, 7901, 110, 103, 32, 116, 114, 250],
     [78, 417, 105, 32, 99, 432, 32, 116, 114, 250],
     [67, 104, 7895, 32, 7903]]"

definition phone_keywords :: "pystr list" where
  \<comment> \<open>So dien thoai, Dien thoai, SDT, Phone\<close>
  "phone_keywords =
    [[83, 7889, 32, 273, 105, 7879, 110, 32, 116, 104, 111, 7841, 105],
     [272, 105, 7879, 110, 32, 116, 104, 111, 7841, 105],
     [83, 272, 84],
     [80, 104, 111, 110, 101]]"

definition purpose_keywords :: "pystr list" where
  \<comment> \<open>Muc dich vay, Muc dich su dung von, Muc dich, Vay de, Su dung von de\<close>
  "purpose_keywords =
    [[77, 7909, 99, 32, 273, 237, 99, 104, 32, 118, 97, 121],
     [77, 7909, 99, 32, 273, 237, 99, 104, 32, 115, 7917, 32, 100, 7909, 110, 103, 32, 118, 7889, 110],
     [77, 7909, 99, 32, 273, 237, 99, 104],
     [86, 97, 121, 32, 273, 7875],
     [83, 7917, 32, 100, 7909, 110, 103, 32, 118, 7889, 110, 32, 273, 7875]]"

definition total_need_keywords :: "pystr list" where
  \<comment> \<open>Tong nhu cau von, Nhu cau von, Tong von can, Tong muc dau tu, Von dau tu\<close>
  "total_need_keywords =
    [[84, 7893, 110, 103, 32, 110, 104, 117, 32, 99, 7847, 117, 32, 118, 7889, 110],
     [78, 104, 117, 32, 99, 7847, 117, 32, 118, 7889, 110],
     [84, 7893, 110, 103, 32, 118, 7889, 110, 32, 99, 7847, 110],
     [84, 7893, 110, 103, 32, 109, 7913, 99, 32, 273, 7847, 117, 32, 116, 432],
     [86, 7889, 110, 32, 273, 7847, 117, 32, 116, 432]]"

definition equity_keywords :: "pystr list" where
  \<comment> \<open>Von doi ung, Von tu co, Nguon von tu co, Von chu so huu\<close>
  "equity_keywords =
    [[86, 7889, 110, 32, 273, 7889, 105, 32, 7913, 110, 103],
     [86, 7889, 110, 32, 116, 7921, 32, 99, 243],
     [78, 103, 117, 7891, 110, 32, 118, 7889, 110, 32, 116, 7921, 32, 99, 243],
     [86, 7889, 110, 32, 99, 104, 7911, 32, 115, 7903, 32, 104, 7919, 117]]"

definition loan_amount_keywords :: "pystr list" where
  \<comment> \<open>So tien vay, Von vay, Han muc vay, Du no vay\<close>
  "loan_amount_keywords =
    [[83, 7889, 32, 116, 105, 7873, 110, 32, 118, 97, 121],
     [86, 7889, 110, 32, 118, 97, 121],
     [72, 7841, 110, 32, 109, 7913, 99, 32, 118, 97, 121],
     [68, 432, 32, 110, 7907, 32, 118, 97, 121]]"

definition interest_rate_keywords :: "pystr list" where
  \<comment> \<open>Lai suat, Lai suat vay, Lai suat cho vay, LS\<close>
  "interest_rate_keywords =
    [[76, 227, 105, 32, 115, 117, 7845, 116],
     [76, 227, 105, 32, 115, 117, 7845, 116, 32, 118, 97, 121],
     [76, 227, 105, 32, 115, 117, 7845, 116, 32, 99, 104, 111, 32, 118, 97, 121],
     [76, 83]]"

definition loan_term_keywords :: "pystr list" where
  \<comment> \<open>Thoi gian vay, Thoi han vay, Ky han, Thoi han\<close>
  "loan_term_keywords =
    [[84, 104, 7901, 105, 32, 103, 105, 97, 110, 32, 118, 97, 121],
     [84, 104, 7901, 105, 32, 104, 7841, 110, 32, 118, 97, 121],
     [75, 7923, 32, 104, 7841, 110],
     [84, 104, 7901, 105, 32, 104, 7841, 110]]"

definition asset_type_keywords :: "pystr list" where
  \<comment> \<open>Loai tai san, Tai san, TSBD, Loai TSBD\<close>
  "asset_type_keywords =
    [[76, 111, 7841, 105, 32, 116, 224, 105, 32, 115, 7843, 110],
     [84, 224, 105, 32, 115, 7843, 110],
     [84, 83, 66, 272],
     [76, 111, 7841, 105, 32, 84, 83, 66, 272]]"

definition market_value_keywords :: "pystr list" where
  \<comment> \<open>Gia tri thi truong, Gia thi truong, Gia tri, Tri gia tai san\<close>
  "market_value_keywords =
    [[71, 105, 225, 32, 116, 114, 7883, 32, 116, 104, 7883, 32, 116, 114, 432, 7901, 110, 103],
     [71, 105, 225, 32, 116, 104, 7883, 32, 116, 114, 432, 7901, 110, 103],
     [71, 105, 225, 32, 116, 114, 7883],
     [84, 114, 7883, 32, 103, 105, 225, 32, 116, 224, 105, 32, 115, 7843, 110]]"

definition asset_address_keywords :: "pystr list" where
  \<comment> \<open>Dia chi tai san, Vi tri, Dia diem, Toa lac tai\<close>
  "asset_address_keywords =
    [[272, 7883, 97, 32, 99, 104, 7881, 32, 116, 224, 105, 32, 115, 7843, 110],
     [86, 7883, 32, 116, 114, 237],
     [272, 7883, 97, 32, 273, 105, 7875, 109],
     [84, 7885, 97, 32, 108, 7841, 99, 32, 116, 7841, 105]]"

definition ltv_keywords :: "pystr list" where
  \<comment> \<open>LTV, Ty le cho vay, Ty le LTV\<close>
  "ltv_keywords =
    [[76, 84, 86],
     [84, 7927, 32, 108, 7879, 32, 99, 104, 111, 32, 118, 97, 121],
     [84, 7927, 32, 108, 7879, 32, 76, 84, 86]]"

definition legal_docs_keywords :: "pystr list" where
  \<comment> \<open>Giay to phap ly, Phap ly, Giay to, So do\<close>
  "legal_docs_keywords =
    [[71, 105, 7845, 121, 32, 116, 7901, 32, 112, 104, 225, 112, 32, 108, 253],
     [80, 104, 225, 112, 32, 108, 253],
     [71, 105, 7845, 121, 32, 116, 7901],
     [83, 7893, 32, 273, 7887]]"

definition monthly_income_keywords :: "pystr list" where
  \<comment> \<open>Thu nhap thang, Thu nhap hang thang, Doanh thu thang\<close>
  "monthly_income_keywords =
    [[84, 104, 117, 32, 110, 104, 7853, 112, 32, 116, 104, 225, 110, 103],
     [84, 104, 117, 32, 110, 104, 7853, 112, 32, 104, 224, 110, 103, 32, 116, 104, 225, 110, 103],
     [68, 111, 97, 110, 104, 32, 116, 104, 117, 32, 116, 104, 225, 110, 103]]"

definition monthly_expense_keywords :: "pystr list" where
  \<comment> \<open>Chi phi thang, Chi phi hang thang, Chi phi\<close>
  "monthly_expense_keywords =
    [[67, 104, 105, 32, 112, 104, 237, 32, 116, 104, 225, 110, 103],
     [67, 104, 105, 32, 112, 104, 237, 32, 104, 224, 110, 103, 32, 116, 104, 225, 110, 103],
     [67, 104, 105, 32, 112, 104, 237]]"

definition other_debt_keywords :: "pystr list" where
  \<comment> \<open>No khac, Cong no khac, Nghia vu no khac\<close>
  "other_debt_keywords =
    [[78, 7907, 32, 107, 104, 225, 99],
     [67, 244, 110, 103, 32, 110, 7907, 32, 107, 104, 225, 99],
     [78, 103, 104, 297, 97, 32, 118, 7909, 32, 110, 7907, 32, 107, 104, 225, 99]]"

definition Kinh_doanh :: pystr where
  \<comment> \<open>Kinh doanh\<close>
  "Kinh_doanh = [75, 105, 110, 104, 32, 100, 111, 97, 110, 104]"

definition Thang :: pystr where
  \<comment> \<open>Thang\<close>
  "Thang = [84, 104, 225, 110, 103]"

definition Bat_dong_san :: pystr where
  \<comment> \<open>Bat dong san\<close>
  "Bat_dong_san = [66, 7845, 116, 32, 273, 7897, 110, 103, 32, 115, 7843, 110]"

definition So_do_Giay_chung_nhan :: pystr where
  \<comment> \<open>So do/Giay chung nhan quyen su dung dat\<close>
  "So_do_Giay_chung_nhan = [83, 7893, 32, 273, 7887, 47, 71, 105, 7845, 121, 32, 99, 104, 7913, 110, 103, 32, 110, 104, 7853, 110, 32, 113, 117, 121, 7873, 110, 32, 115, 7917, 32, 100, 7909, 110, 103, 32, 273, 7845, 116]"

section \<open>The four extractors and the assembly\<close>

definition extract_customer_info :: "env \<Rightarrow> docx_parser \<Rightarrow> pydict" where
  "extract_customer_info env self =
     [(''name'', PStr (py_or (find_value_after_keyword env self name_keywords None) [])),
      (''cccd'', PStr (py_or (find_value_after_keyword env self cccd_keywords None) [])),
      (''address'', PStr (py_or (find_value_after_keyword env self address_keywords None) [])),
      (''phone'', PStr (py_or (find_value_after_keyword env self phone_keywords None) []))]"

text \<open>
  \<^verbatim>\<open>extract_loan_info\<close>. The names with a prime are the variables of the source after
  their conditional reassignment. The quotient of the equity ratio is the only
  operation of the file that can raise by itself; the source guards it with
  \<^verbatim>\<open>total_need > 0\<close> and writes the integer \<^verbatim>\<open>0\<close> otherwise.
\<close>

definition extract_loan_info :: "env \<Rightarrow> docx_parser \<Rightarrow> error + pydict" where
  "extract_loan_info env self =
     (let purpose = py_or (find_value_after_keyword env self purpose_keywords None) Kinh_doanh;
          total_need = find_number_after_keyword env self total_need_keywords;
          equity = find_number_after_keyword env self equity_keywords;
          loan_amount = find_number_after_keyword env self loan_amount_keywords;
          loan_amount' = (if loan_amount = 0 \<and> total_need > 0 then total_need - equity
                          else loan_amount);
          interest_rate = find_number_after_keyword env self interest_rate_keywords;
          interest_rate' = (if interest_rate = 0 then 17 / 2 else interest_rate);
          loan_term = find_number_after_keyword env self loan_term_keywords;
          loan_term' = (if loan_term = 0 then 120 else loan_term)
      in case (if total_need > 0
               then (case py_truediv equity total_need of
                       Inl e \<Rightarrow> Inl e
                     | Inr q \<Rightarrow> Inr (PFloat (q * 100)))
               else Inr (PInt 0)) of
           Inl e \<Rightarrow> Inl e
         | Inr equity_ratio \<Rightarrow>
             Inr [(''purpose'', PStr purpose),
                  (''total_need'', PFloat total_need),
                  (''equity'', PFloat equity),
                  (''loan_amount'', PFloat loan_amount'),
                  (''equity_ratio'', equity_ratio),
                  (''interest_rate'', PFloat interest_rate'),
                  (''loan_term'', PInt (py_int loan_term')),
                  (''payment_frequency'', PStr Thang)])"

definition extract_collateral_info :: "env \<Rightarrow> docx_parser \<Rightarrow> pydict" where
  "extract_collateral_info env self =
     (let asset_type = py_or (find_value_after_keyword env self asset_type_keywords None) Bat_dong_san;
          market_value = find_number_after_keyword env self market_value_keywords;
          asset_address = py_or (find_value_after_keyword env self asset_address_keywords None) [];
          ltv = find_number_after_keyword env self ltv_keywords;
          ltv' = (if ltv = 0 then 70 else ltv);
          legal_docs = py_or (find_value_after_keyword env self legal_docs_keywords None)
                         So_do_Giay_chung_nhan
      in [(''asset_type'', PStr asset_type),
          (''market_value'', PFloat market_value),
          (''asset_address'', PStr asset_address),
          (''ltv'', PFloat ltv'),
          (''legal_docs'', PStr legal_docs)])"

definition extract_financial_info :: "env \<Rightarrow> docx_parser \<Rightarrow> pydict" where
  "extract_financial_info env self =
     (let monthly_income = find_number_after_keyword env self monthly_income_keywords;
          monthly_expense = find_number_after_keyword env self monthly_expense_keywords;
          other_debt = find_number_after_keyword env self other_debt_keywords
      in [(''monthly_income'', PFloat monthly_income),
          (''monthly_expense'', PFloat monthly_expense),
          (''other_debt'', PFloat other_debt)])"

text \<open>
  \<^verbatim>\<open>parse_full_document\<close>: the dict display evaluates its entries in order, and an
  error of an extractor is the error of the whole call.
\<close>

definition parse_full_document :: "env \<Rightarrow> docx_parser \<Rightarrow> error + pydict" where
  "parse_full_document env self =
     (let customer_info = extract_customer_info env self
      in case extract_loan_info env self of
           Inl e \<Rightarrow> Inl e
         | Inr loan_info \<Rightarrow>
             Inr [(''customer_info'', PDict customer_info),
                  (''loan_info'', PDict loan_info),
                  (''collateral_info'', PDict (extract_collateral_info env self)),
                  (''financial_info'', PDict (extract_financial_info env self)),
                  (''raw_text'', PStr (text_content self))])"

section \<open>A concrete environment\<close>

text \<open>
  The theorems below hold for every environment. To run the parser on a text, this
  section fixes one.

  \<open>casefold0\<close> is the case table of \<^verbatim>\<open>re.IGNORECASE\<close> for labels written in the
  Unicode blocks of the labels of the file (Basic Latin, Latin-1 Supplement, Latin
  Extended-A, the letters O and U with horn, Latin Extended Additional): a label
  character of these blocks matches a text character, of any block, exactly when both
  have the same image. This includes the Kelvin sign and the Angstrom sign, which
  match \<^verbatim>\<open>k\<close> and the letter a with ring, and the Greek mu, which matches the micro
  sign. Other characters are left as they are, so a label character of another block
  matches itself only.
\<close>

definition casefold0 :: "pychar \<Rightarrow> pychar" where
  "casefold0 c =
     (if 65 \<le> c \<and> c \<le> 90 then c + 32
      else if 192 \<le> c \<and> c \<le> 222 \<and> c \<noteq> 215 then c + 32
      else if ((256 \<le> c \<and> c \<le> 303) \<or> (306 \<le> c \<and> c \<le> 311) \<or> (330 \<le> c \<and> c \<le> 375)) \<and> even c
        then c + 1
      else if ((313 \<le> c \<and> c \<le> 328) \<or> (377 \<le> c \<and> c \<le> 382)) \<and> odd c then c + 1
      else if c = 304 \<or> c = 305 then 105
      else if c = 376 then 255
      else if c = 383 then 115
      else if c = 416 \<or> c = 431 then c + 1
      else if ((7680 \<le> c \<and> c \<le> 7829) \<or> (7840 \<le> c \<and> c \<le> 7934)) \<and> even c then c + 1
      else if c = 7835 then 7777
      else if c = 7838 then 223
      else if c = 8490 then 107
      else if c = 8491 then 229
      else if c = 924 \<or> c = 956 then 181
      else c)"

text \<open>
  Modelled from the spec: \<^verbatim>\<open>clean_text\<close> of \<^verbatim>\<open>src/utils.py\<close>, which is not among the
  sources. The Text Normalizer removes leading and trailing whitespace and collapses
  every internal run of whitespace (into one space); the empty string stays empty.
\<close>

fun squeeze :: "bool \<Rightarrow> pystr \<Rightarrow> pystr" where
  "squeeze pending [] = []"
| "squeeze pending (c # cs) =
     (if isspace c then squeeze True cs
      else (if pending then [32] else []) @ c # squeeze False cs)"

text \<open>
  Modelled from the spec: the Text Normalizer itself, \<open>squeeze\<close> after the leading
  whitespace is dropped.
\<close>

definition clean_text0 :: "pystr \<Rightarrow> pystr" where
  "clean_text0 s = squeeze False (dropWhile isspace s)"

text \<open>
  Modelled from the spec: \<^verbatim>\<open>parse_number\<close> of \<^verbatim>\<open>src/utils.py\<close>, which is not among the
  sources. The Numeric Parser first strips every character that is neither a digit nor
  a separator. Without a digit the result is 0. When both separators occur, the one
  that occurs last is the decimal separator and the other one is dropped. When one kind
  of separator occurs, exactly three digits after its last occurrence make it a
  thousands separator, otherwise it is the decimal separator. A second decimal
  separator leaves no number to read, and the result is 0. A digit is a character of
  the class \<^verbatim>\<open>\d\<close> of the source and counts with its decimal value, as \<^verbatim>\<open>float\<close> and
  \<^verbatim>\<open>int\<close> of Python read it.
\<close>

definition digit_value :: "pychar \<Rightarrow> nat" where
  "digit_value c = (case filter (\<lambda>z. z \<le> c \<and> c < z + 10) decimal_zeros of [] \<Rightarrow> 0 | z # zs \<Rightarrow> c - z)"

text \<open>Modelled from the spec: the number that a string of digits denotes.\<close>

definition digits_rat :: "pystr \<Rightarrow> rat" where
  "digits_rat ds = foldl (\<lambda>acc d. 10 * acc + of_nat (digit_value d)) 0 ds"

text \<open>
  Modelled from the spec: the number denoted by digits with the decimal separator
  \<open>sep\<close>, and 0 when the separator occurs twice.
\<close>

definition read_decimal :: "pychar \<Rightarrow> pystr \<Rightarrow> rat" where
  "read_decimal sep s =
     (let ip = takeWhile (\<lambda>c. c \<noteq> sep) s;
          fp = drop 1 (dropWhile (\<lambda>c. c \<noteq> sep) s)
      in if sep \<in> set fp then 0
         else digits_rat ip + digits_rat fp / 10 ^ length fp)"

text \<open>Modelled from the spec: the Numeric Parser itself, with the policy above.\<close>

definition parse_number0 :: "pystr \<Rightarrow> rat" where
  "parse_number0 text =
     (let s = filter number_char text;
          dot = (46 \<in> set s);
          comma = (44 \<in> set s);
          after_last = rev (takeWhile isdecimal (rev s))
      in if \<not> list_ex isdecimal s then 0
         else if dot \<and> comma then
           (if last (filter (\<lambda>c. c = 46 \<or> c = 44) s) = 46
            then read_decimal 46 (filter (\<lambda>c. c \<noteq> 44) s)
            else read_decimal 44 (filter (\<lambda>c. c \<noteq> 46) s))
         else if dot \<or> comma then
           (if length after_last = 3 then digits_rat (filter isdecimal s)
            else read_decimal (if dot then 46 else 44) s)
         else digits_rat s)"

definition env0 :: env where
  "env0 = \<lparr>ci_eq = (\<lambda>c x. casefold0 c = casefold0 x),
           clean_text = clean_text0,
           parse_number = parse_number0\<rparr>"

section \<open>The label as a pattern\<close>

text \<open>
  Line 56 pastes the label into the pattern without escaping it, so a character of the
  label with a meaning in the pattern language keeps that meaning.
  \<open>find_value_after_keyword\<close> above reads a label as literal characters, which is
  what \<^verbatim>\<open>re\<close> does for a label without such characters. This section models the same
  method for labels whose special characters are parentheses: \<^verbatim>\<open>(\<close> (40) and
  \<^verbatim>\<open>)\<close> (41) make groups, which match what their content matches. For such a
  label the pattern compiles exactly when its parentheses are balanced; the first
  parenthesis of the label then opens group 1, and \<^verbatim>\<open>match.group(1)\<close> of line 59 is
  the text matched inside it, not the value after the label.
\<close>

definition re_special :: "pychar \<Rightarrow> bool" where
  \<comment> \<open>the special characters of a pattern: \<^verbatim>\<open>. ^ $ * + ? { } [ ] \ | ( )\<close>\<close>
  "re_special c \<longleftrightarrow> c \<in> set [46, 94, 36, 42, 43, 63, 123, 125, 91, 93, 92, 124, 40, 41]"

definition plain_label :: "pystr \<Rightarrow> bool" where
  "plain_label k = list_all (\<lambda>c. \<not> re_special c) k"

definition paren_label :: "pystr \<Rightarrow> bool" where
  "paren_label k = list_all (\<lambda>c. c = 40 \<or> c = 41 \<or> \<not> re_special c) k"

text \<open>\<open>parens_balanced d k\<close>: the parentheses of \<open>k\<close> close \<open>d\<close> open groups and their own.\<close>

fun parens_balanced :: "nat \<Rightarrow> pystr \<Rightarrow> bool" where
  "parens_balanced d [] = (d = 0)"
| "parens_balanced d (c # cs) =
     (if c = 40 then parens_balanced (Suc d) cs
      else if c = 41 then (case d of 0 \<Rightarrow> False | Suc d' \<Rightarrow> parens_balanced d' cs)
      else parens_balanced d cs)"

definition strip_parens :: "pystr \<Rightarrow> pystr" where
  "strip_parens k = filter (\<lambda>c. c \<noteq> 40 \<and> c \<noteq> 41) k"

text \<open>
  The number of literal characters in group 1, counted from behind its opening
  parenthesis; \<open>d\<close> is the number of groups open inside group 1.
\<close>

fun group1_length :: "nat \<Rightarrow> pystr \<Rightarrow> nat" where
  "group1_length d [] = 0"
| "group1_length d (c # cs) =
     (if c = 40 then group1_length (Suc d) cs
      else if c = 41 then (case d of 0 \<Rightarrow> 0 | Suc d' \<Rightarrow> group1_length d' cs)
      else Suc (group1_length d cs))"

text \<open>
  The pattern of a label with balanced parentheses, matched at the beginning of \<open>t\<close>:
  the literal characters of the label and the rest of the pattern match as before;
  group 1 is the group of the label if it has one, and the captured value otherwise.
\<close>

definition re_match_grouped :: "(pychar \<Rightarrow> pychar \<Rightarrow> bool) \<Rightarrow> pystr \<Rightarrow> pystr \<Rightarrow> pystr option" where
  "re_match_grouped ci keyword t =
     (case re_literal ci (strip_parens keyword) t of
        None \<Rightarrow> None
      | Some r \<Rightarrow>
          (case re_spaces (re_colon (re_spaces re_group)) r of
             None \<Rightarrow> None
           | Some g \<Rightarrow>
               if 40 \<in> set keyword
               then Some (take (group1_length 0 (drop 1 (dropWhile (\<lambda>c. c \<noteq> 40) keyword)))
                            (drop (length (takeWhile (\<lambda>c. c \<noteq> 40) keyword)) t))
               else Some g))"

fun re_search_grouped :: "(pychar \<Rightarrow> pychar \<Rightarrow> bool) \<Rightarrow> pystr \<Rightarrow> pystr \<Rightarrow> pystr option" where
  "re_search_grouped ci keyword [] = re_match_grouped ci keyword []"
| "re_search_grouped ci keyword (x # t) =
     (case re_match_grouped ci keyword (x # t) of
        Some g \<Rightarrow> Some g
      | None \<Rightarrow> re_search_grouped ci keyword t)"

text \<open>
  \<^verbatim>\<open>_find_value_after_keyword\<close> with the label read as a pattern. The pattern of a
  label is compiled when the loop reaches the label, so a label that does not compile
  raises only if no label before it has a match. The result is \<open>None\<close> where the
  loop reaches a label with another special character than a parenthesis: the pattern
  language is not modelled for those.

  The pattern argument, when given, is taken as the function it computes on the cleaned
  text: \<open>None\<close> when \<^verbatim>\<open>re.search(pattern, value)\<close> finds nothing, else the list of the
  groups of the match, from group 1 on, each \<open>None\<close> if it took no part in the match.
  \<^verbatim>\<open>pattern_match.group(1)\<close> on line 63 is the first of them, and raises
  \<^verbatim>\<open>IndexError\<close> when the pattern has no group.
\<close>

fun find_value_after_keyword_re ::
  "env \<Rightarrow> docx_parser \<Rightarrow> pystr list \<Rightarrow> (pystr \<Rightarrow> pystr option list option) option \<Rightarrow>
   (error + pystr option) option" where
  "find_value_after_keyword_re env self [] pattern = Some (Inr None)"
| "find_value_after_keyword_re env self (keyword # keywords) pattern =
     (if \<not> paren_label keyword then None
      else if \<not> parens_balanced 0 keyword then Some (Inl ReError)
      else
        (case re_search_grouped (ci_eq env) keyword (text_content self) of
           None \<Rightarrow> find_value_after_keyword_re env self keywords pattern
         | Some g \<Rightarrow>
             (let v = clean_text env g in
              case pattern of
                None \<Rightarrow> Some (Inr (Some v))
              | Some pat \<Rightarrow>
                  (case pat v of
                     None \<Rightarrow> Some (Inr (Some v))
                   | Some [] \<Rightarrow> Some (Inl IndexError)
                   | Some (g1 # gs) \<Rightarrow> Some (Inr g1)))))"

section \<open>Numbers as doubles\<close>

text \<open>
  The extractors above compute with the numbers that \<^verbatim>\<open>parse_number\<close> reads. In the
  source these numbers are doubles, and \<^verbatim>\<open>int(loan_term)\<close> on line 145 raises
  \<^verbatim>\<open>OverflowError\<close> when the double is an infinity. This section adds that to the loan
  extractor and the assembly.

  Modelled from the spec: the Numeric Parser returns a double-precision number. A
  number is read as the nearest double, so a number of absolute value
  \<open>2 ^ 1024 - 2 ^ 970\<close> or more, half a step beyond the largest double, is read as an
  infinity. Such a number stands for the infinite double here; the arithmetic of
  infinities among themselves, and rounding, are not modelled.
\<close>

definition double_inf :: "rat \<Rightarrow> bool" where
  "double_inf x \<longleftrightarrow> 2 ^ 1024 - 2 ^ 970 \<le> \<bar>x\<bar>"

text \<open>\<^verbatim>\<open>int(x)\<close> of a double.\<close>

definition py_int_double :: "rat \<Rightarrow> error + int" where
  "py_int_double x = (if double_inf x then Inl OverflowError else Inr (py_int x))"

text \<open>\<^verbatim>\<open>extract_loan_info\<close>, lines 94 to 147, with \<^verbatim>\<open>int\<close> of a double on line 145.\<close>

definition extract_loan_info_double :: "env \<Rightarrow> docx_parser \<Rightarrow> error + pydict" where
  "extract_loan_info_double env self =
     (let purpose = py_or (find_value_after_keyword env self purpose_keywords None) Kinh_doanh;
          total_need = find_number_after_keyword env self total_need_keywords;
          equity = find_number_after_keyword env self equity_keywords;
          loan_amount = find_number_after_keyword env self loan_amount_keywords;
          loan_amount' = (if loan_amount = 0 \<and> total_need > 0 then total_need - equity
                          else loan_amount);
          interest_rate = find_number_after_keyword env self interest_rate_keywords;
          interest_rate' = (if interest_rate = 0 then 17 / 2 else interest_rate);
          loan_term = find_number_after_keyword env self loan_term_keywords;
          loan_term' = (if loan_term = 0 then 120 else loan_term)
      in case (if total_need > 0
               then (case py_truediv equity total_need of
                       Inl e \<Rightarrow> Inl e
                     | Inr q \<Rightarrow> Inr (PFloat (q * 100)))
               else Inr (PInt 0)) of
           Inl e \<Rightarrow> Inl e
         | Inr equity_ratio \<Rightarrow>
             (case py_int_double loan_term' of
                Inl e \<Rightarrow> Inl e
              | Inr months \<Rightarrow>
                  Inr [(''purpose'', PStr purpose),
                       (''total_need'', PFloat total_need),
                       (''equity'', PFloat equity),
                       (''loan_amount'', PFloat loan_amount'),
                       (''equity_ratio'', equity_ratio),
                       (''interest_rate'', PFloat interest_rate'),
                       (''loan_term'', PInt months),
                       (''payment_frequency'', PStr Thang)]))"

text \<open>\<^verbatim>\<open>parse_full_document\<close> with that loan extractor.\<close>

definition parse_full_document_double :: "env \<Rightarrow> docx_parser \<Rightarrow> error + pydict" where
  "parse_full_document_double env self =
     (let customer_info = extract_customer_info env self
      in case extract_loan_info_double env self of
           Inl e \<Rightarrow> Inl e
         | Inr loan_info \<Rightarrow>
             Inr [(''customer_info'', PDict customer_info),
                  (''loan_info'', PDict loan_info),
                  (''collateral_info'', PDict (extract_collateral_info env self)),
                  (''financial_info'', PDict (extract_financial_info env self)),
                  (''raw_text'', PStr (text_content self))])"

section \<open>Notions used in the statements\<close>

definition keyword_lists :: "pystr list list" where
  "keyword_lists =
    [name_keywords, cccd_keywords, address_keywords, phone_keywords,
     purpose_keywords, total_need_keywords, equity_keywords, loan_amount_keywords,
     interest_rate_keywords, loan_term_keywords,
     asset_type_keywords, market_value_keywords, asset_address_keywords, ltv_keywords,
     legal_docs_keywords,
     monthly_income_keywords, monthly_expense_keywords, other_debt_keywords]"

text \<open>
  The class \<^verbatim>\<open>[0-9.,]\<close> as the specification words the numeric locator, to compare
  with \<open>number_char\<close>, the class \<^verbatim>\<open>[\d.,]\<close> of the source.
\<close>

definition spec_number_char :: "pychar \<Rightarrow> bool" where
  "spec_number_char c \<longleftrightarrow> (48 \<le> c \<and> c \<le> 57) \<or> c = 46 \<or> c = 44"

text \<open>
  A text contains a label when the label, compared as the pattern compares it, stands
  at some offset of the text.
\<close>

fun label_occurs :: "(pychar \<Rightarrow> pychar \<Rightarrow> bool) \<Rightarrow> pystr \<Rightarrow> pystr \<Rightarrow> bool" where
  "label_occurs ci k [] = (re_literal ci k [] \<noteq> None)"
| "label_occurs ci k (x # t) = (re_literal ci k (x # t) \<noteq> None \<or> label_occurs ci k t)"

text \<open>
  Reading a result: \<^verbatim>\<open>extract_loan_info()[key]\<close> and
  \<^verbatim>\<open>parse_full_document()[grp][key]\<close>, with \<open>None\<close> for a call that raised or a
  key that is not there.
\<close>

definition loan_field :: "env \<Rightarrow> docx_parser \<Rightarrow> string \<Rightarrow> pyval option" where
  "loan_field env self key =
     (case extract_loan_info env self of Inl e \<Rightarrow> None | Inr d \<Rightarrow> map_of d key)"

definition document_field :: "env \<Rightarrow> docx_parser \<Rightarrow> string \<Rightarrow> string \<Rightarrow> pyval option" where
  "document_field env self grp key =
     (case parse_full_document env self of
        Inl e \<Rightarrow> None
      | Inr d \<Rightarrow> (case map_of d grp of Some (PDict g) \<Rightarrow> map_of g key | _ \<Rightarrow> None))"

text \<open>
  A dictionary is populated for a list of field names when its keys are these names,
  in this order, and none of its values is \<^verbatim>\<open>None\<close>.
\<close>

definition populated :: "string list \<Rightarrow> pydict \<Rightarrow> bool" where
  "populated keys d \<longleftrightarrow> map fst d = keys \<and> list_all (\<lambda>v. v \<noteq> PNone) (map snd d)"

section \<open>Example documents\<close>

text \<open>
  Parser objects for the examples. The comments give the text without its diacritics,
  with a bar for the line break.
\<close>

definition doc_purpose :: docx_parser where
  \<comment> \<open>Muc dich: Mua nha | Muc dich: Mua xe\<close>
  "doc_purpose =
     \<lparr>text_content =
        [77, 7909, 99, 32, 273, 237, 99, 104, 58, 32, 77, 117, 97, 32, 110, 104, 224,
        10, 77, 7909, 99, 32, 273, 237, 99, 104, 58, 32, 77, 117, 97, 32, 120, 101],
      tables = []\<rparr>"

definition doc_need_equity :: docx_parser where
  \<comment> \<open>Tong nhu cau von: 1000000000 | Von doi ung: 200000000\<close>
  "doc_need_equity =
     \<lparr>text_content =
        [84, 7893, 110, 103, 32, 110, 104, 117, 32, 99, 7847, 117, 32, 118, 7889, 110,
        58, 32, 49, 48, 48, 48, 48, 48, 48, 48, 48, 48, 10, 86, 7889, 110, 32, 273,
        7889, 105, 32, 7913, 110, 103, 58, 32, 50, 48, 48, 48, 48, 48, 48, 48, 48],
      tables = []\<rparr>"

definition doc_equity_above_need :: docx_parser where
  \<comment> \<open>Tong nhu cau von: 100 | Von doi ung: 300\<close>
  "doc_equity_above_need =
     \<lparr>text_content =
        [84, 7893, 110, 103, 32, 110, 104, 117, 32, 99, 7847, 117, 32, 118, 7889, 110,
        58, 32, 49, 48, 48, 10, 86, 7889, 110, 32, 273, 7889, 105, 32, 7913, 110, 103,
        58, 32, 51, 48, 48],
      tables = []\<rparr>"

definition doc_half_month :: docx_parser where
  \<comment> \<open>Thoi han vay: 0.5 nam\<close>
  "doc_half_month =
     \<lparr>text_content =
        [84, 104, 7901, 105, 32, 104, 7841, 110, 32, 118, 97, 121, 58, 32, 48, 46, 53,
        32, 110, 259, 109],
      tables = []\<rparr>"

definition doc_empty :: docx_parser where
  "doc_empty = \<lparr>text_content = [], tables = []\<rparr>"

definition doc_value_on_next_line :: docx_parser where
  \<comment> \<open>two lines, the label with its colon on the first and 7.5 on the second\<close>
  "doc_value_on_next_line = \<lparr>text_content = ascii ''LS:'' @ [10] @ ascii ''7.5'', tables = []\<rparr>"

definition doc_value_on_same_line :: docx_parser where
  "doc_value_on_same_line =
     \<lparr>text_content = ascii ''LS: about 7.5 percent'' @ [10] @ ascii ''LS: 9'', tables = []\<rparr>"

definition doc_arabic_digit :: docx_parser where
  \<comment> \<open>the label, a colon, a space and ARABIC-INDIC DIGIT THREE (U+0663)\<close>
  "doc_arabic_digit = \<lparr>text_content = ascii ''LS: '' @ [1635], tables = []\<rparr>"

definition doc_name_on_own_line :: docx_parser where
  \<comment> \<open>Ho va ten: | CCCD: 0123\<close>
  "doc_name_on_own_line =
     \<lparr>text_content =
        [72, 7885, 32, 118, 224, 32, 116, 234, 110, 58, 10, 67, 67, 67, 68, 58, 32, 48,
        49, 50, 51],
      tables = []\<rparr>"

definition doc_vay_usd :: docx_parser where
  "doc_vay_usd = \<lparr>text_content = ascii ''Vay USD: 5'', tables = []\<rparr>"

definition doc_long_term :: docx_parser where
  \<comment> \<open>Thoi gian vay: 1 and 309 zeros\<close>
  "doc_long_term =
     \<lparr>text_content =
        [84, 104, 7901, 105, 32, 103, 105, 97, 110, 32, 118, 97, 121, 58, 32, 49] @ replicate 309 48,
      tables = []\<rparr>"

section \<open>Evaluation\<close>

lemmas run_simps =
  ascii_def env0_def casefold0_def re_match_def re_colon_def re_group_def isspace_def
  find_number_after_keyword_def number_char_def isdecimal_def decimal_zeros_def
  re_findall.simps clean_text0_def parse_number0_def read_decimal_def digits_rat_def
  digit_value_def Let_def py_or_def py_int_def py_truediv_def

text \<open>Every label of the file is free of the special characters of the pattern language.\<close>

lemma labels_plain: "list_all (list_all plain_label) keyword_lists"
  by (simp add: keyword_lists_def plain_label_def re_special_def
      name_keywords_def cccd_keywords_def address_keywords_def phone_keywords_def
      purpose_keywords_def total_need_keywords_def equity_keywords_def
      loan_amount_keywords_def interest_rate_keywords_def loan_term_keywords_def
      asset_type_keywords_def market_value_keywords_def asset_address_keywords_def
      ltv_keywords_def legal_docs_keywords_def monthly_income_keywords_def
      monthly_expense_keywords_def other_debt_keywords_def)

section \<open>The search\<close>

lemma all_nat_0_Suc: "(\<forall>i. P i) \<longleftrightarrow> P (0::nat) \<and> (\<forall>i. P (Suc i))"
proof
  assume "\<forall>i. P i"
  then show "P 0 \<and> (\<forall>i. P (Suc i))" by simp
next
  assume h: "P 0 \<and> (\<forall>i. P (Suc i))"
  show "\<forall>i. P i"
  proof
    fix i show "P i" using h by (cases i) simp_all
  qed
qed

text \<open>
  \<open>re_match ci k (drop i t)\<close> is the match of the pattern of label \<open>k\<close> at offset
  \<open>i\<close> of the text. The search finds nothing exactly when no offset has a match, and it
  returns the match of the least offset that has one.
\<close>

lemma re_search_None:
  "re_search ci k t = None \<longleftrightarrow> (\<forall>i. re_match ci k (drop i t) = None)"
proof (induction t)
  case Nil
  show ?case by simp
next
  case (Cons x t)
  have "re_search ci k (x # t) = None \<longleftrightarrow>
        re_match ci k (x # t) = None \<and> re_search ci k t = None"
    by (simp split: option.splits)
  also have "\<dots> \<longleftrightarrow> re_match ci k (x # t) = None \<and> (\<forall>i. re_match ci k (drop i t) = None)"
    by (simp only: Cons.IH)
  also have "\<dots> \<longleftrightarrow> (\<forall>i. re_match ci k (drop i (x # t)) = None)"
    by (subst (2) all_nat_0_Suc) simp
  finally show ?case .
qed

lemma re_search_first:
  "re_match ci k (drop i t) = Some g \<Longrightarrow> (\<forall>j<i. re_match ci k (drop j t) = None) \<Longrightarrow>
   re_search ci k t = Some g"
proof (induction t arbitrary: i)
  case Nil
  then show ?case by simp
next
  case (Cons x t)
  show ?case
  proof (cases i)
    case 0
    with Cons.prems(1) show ?thesis by simp
  next
    case (Suc i')
    with Cons.prems(2) have none0: "re_match ci k (x # t) = None"
      by (metis drop0 zero_less_Suc)
    have m: "re_match ci k (drop i' t) = Some g"
      using Cons.prems(1) Suc by simp
    have "\<forall>j<i'. re_match ci k (drop j t) = None"
    proof (intro allI impI)
      fix j assume "j < i'"
      then have "Suc j < i" using Suc by simp
      with Cons.prems(2) have "re_match ci k (drop (Suc j) (x # t)) = None" by blast
      then show "re_match ci k (drop j t) = None" by simp
    qed
    with m have "re_search ci k t = Some g" by (rule Cons.IH)
    with none0 show ?thesis by simp
  qed
qed

lemma find_value_None:
  "find_value_after_keyword env self kws None = None \<longleftrightarrow>
   (\<forall>k\<in>set kws. re_search (ci_eq env) k (text_content self) = None)"
  by (induction kws) (auto split: option.splits)

lemma find_value_first:
  "\<forall>k'\<in>set pre. re_search (ci_eq env) k' (text_content self) = None \<Longrightarrow>
   re_search (ci_eq env) k (text_content self) = Some g \<Longrightarrow>
   find_value_after_keyword env self (pre @ k # post) pattern =
     (case pattern of
        None \<Rightarrow> Some (clean_text env g)
      | Some pat \<Rightarrow> (case pat (clean_text env g) of Some g1 \<Rightarrow> g1 | None \<Rightarrow> Some (clean_text env g)))"
  by (induction pre) (simp_all add: Let_def)

section \<open>The shape of a match\<close>

text \<open>
  A match of the pattern splits the text at its offset into the occurrence of the label,
  whitespace, at most one colon, whitespace again, the captured group, and a rest that
  is empty or begins with a newline. The group is never empty and has no newline.
\<close>

lemma isspace_newline: "isspace 10"
  by (simp add: isspace_def)

lemma re_literal_Some:
  "re_literal ci k t = Some r \<Longrightarrow> \<exists>m. t = m @ r \<and> list_all2 ci k m"
proof (induction ci k t rule: re_literal.induct)
  case (1 ci t)
  then show ?case by simp
next
  case (2 ci c cs)
  then show ?case by simp
next
  case (3 ci c cs x t)
  from "3.prems" have cx: "ci c x" and rest: "re_literal ci cs t = Some r"
    by (simp_all split: if_splits)
  from "3.IH" [OF cx rest] obtain m where "t = m @ r" and "list_all2 ci cs m"
    by blast
  with cx have "x # t = (x # m) @ r \<and> list_all2 ci (c # cs) (x # m)"
    by simp
  then show ?case by blast
qed

lemma re_group_Some:
  assumes "re_group t = Some g"
  shows "g \<noteq> [] \<and> 10 \<notin> set g \<and> (\<exists>rest. t = g @ rest \<and> (rest = [] \<or> hd rest = 10))"
proof -
  from assms obtain x r where t: "t = x # r" and x: "x \<noteq> 10"
    and g: "g = takeWhile (\<lambda>c. c \<noteq> 10) t"
    by (auto simp: re_group_def split: list.splits if_splits)
  have "g \<noteq> []" using t x g by simp
  moreover have "10 \<notin> set g"
    using g by (auto dest: set_takeWhileD)
  moreover have "t = g @ dropWhile (\<lambda>c. c \<noteq> 10) t"
    using g by simp
  moreover have "dropWhile (\<lambda>c. c \<noteq> 10) t = [] \<or> hd (dropWhile (\<lambda>c. c \<noteq> 10) t) = 10"
    using hd_dropWhile [of "\<lambda>c. c \<noteq> 10" t] by auto
  ultimately show ?thesis by blast
qed

lemma re_spaces_Some:
  "re_spaces k t = Some g \<Longrightarrow> \<exists>ws r. t = ws @ r \<and> list_all isspace ws \<and> k r = Some g"
proof (induction t)
  case Nil
  then have "[] = [] @ [] \<and> list_all isspace [] \<and> k [] = Some g" by simp
  then show ?case by (intro exI)
next
  case (Cons x t)
  have here: "k (x # t) = Some g \<Longrightarrow> ?case"
  proof -
    assume "k (x # t) = Some g"
    then have "x # t = [] @ (x # t) \<and> list_all isspace [] \<and> k (x # t) = Some g" by simp
    then show ?case by (intro exI)
  qed
  show ?case
  proof (cases "isspace x")
    case False
    with Cons.prems have "k (x # t) = Some g" by simp
    then show ?thesis by (rule here)
  next
    case True
    show ?thesis
    proof (cases "re_spaces k t")
      case None
      with True Cons.prems have "k (x # t) = Some g" by simp
      then show ?thesis by (rule here)
    next
      case (Some g')
      with True Cons.prems have "re_spaces k t = Some g" by simp
      from Cons.IH [OF this] obtain ws r where
        "t = ws @ r" "list_all isspace ws" "k r = Some g" by (elim exE conjE)
      with True have "x # t = (x # ws) @ r \<and> list_all isspace (x # ws) \<and> k r = Some g"
        by simp
      then show ?thesis by (intro exI)
    qed
  qed
qed

lemma re_colon_Some:
  assumes "re_colon k t = Some g"
  shows "\<exists>c r. t = c @ r \<and> (c = [] \<or> c = [58] \<or> c = [65306]) \<and> k r = Some g"
proof -
  have here: "k t = Some g \<Longrightarrow> ?thesis"
  proof -
    assume "k t = Some g"
    then have "t = [] @ t \<and> ([] = [] \<or> [] = [58::nat] \<or> [] = [65306::nat]) \<and> k t = Some g"
      by simp
    then show ?thesis by (intro exI)
  qed
  show ?thesis
  proof (cases t)
    case Nil
    with assms have "k t = Some g" by (simp add: re_colon_def)
    then show ?thesis by (rule here)
  next
    case (Cons x r)
    show ?thesis
    proof (cases "(x = 58 \<or> x = 65306) \<and> k r \<noteq> None")
      case False
      with assms Cons have "k t = Some g"
        by (cases "k r") (simp_all add: re_colon_def split: if_splits)
      then show ?thesis by (rule here)
    next
      case True
      with assms Cons have "k r = Some g"
        by (cases "k r") (simp_all add: re_colon_def split: if_splits)
      with True Cons have "t = [x] @ r \<and> ([x] = [] \<or> [x] = [58] \<or> [x] = [65306]) \<and> k r = Some g"
        by simp
      then show ?thesis by (intro exI)
    qed
  qed
qed

lemma re_spaces_greedy:
  "list_all isspace ws \<Longrightarrow> r = [] \<or> \<not> isspace (hd r) \<Longrightarrow> k r = Some g \<Longrightarrow>
   re_spaces k (ws @ r) = Some g"
proof (induction ws)
  case Nil
  then show ?case by (cases r) auto
next
  case (Cons w ws)
  then show ?case by simp
qed

lemma re_match_shape:
  assumes "re_match ci k t = Some g"
  shows "\<exists>m ws1 c ws2 rest.
           t = m @ ws1 @ c @ ws2 @ g @ rest \<and> list_all2 ci k m \<and>
           list_all isspace ws1 \<and> (c = [] \<or> c = [58] \<or> c = [65306]) \<and> list_all isspace ws2 \<and>
           g \<noteq> [] \<and> 10 \<notin> set g \<and> (rest = [] \<or> hd rest = 10)"
proof -
  from assms obtain r where lit: "re_literal ci k t = Some r"
    and tail: "re_spaces (re_colon (re_spaces re_group)) r = Some g"
    by (auto simp: re_match_def split: option.splits)
  from re_literal_Some [OF lit] obtain m where m: "t = m @ r" "list_all2 ci k m"
    by (elim exE conjE)
  from re_spaces_Some [OF tail] obtain ws1 r1 where
    1: "r = ws1 @ r1" "list_all isspace ws1" "re_colon (re_spaces re_group) r1 = Some g"
    by (elim exE conjE)
  from re_colon_Some [OF 1(3)] obtain c r2 where
    2: "r1 = c @ r2" "c = [] \<or> c = [58] \<or> c = [65306]" "re_spaces re_group r2 = Some g"
    by (elim exE conjE)
  from re_spaces_Some [OF 2(3)] obtain ws2 r3 where
    3: "r2 = ws2 @ r3" "list_all isspace ws2" "re_group r3 = Some g"
    by (elim exE conjE)
  from re_group_Some [OF 3(3)] obtain rest where
    4: "g \<noteq> []" "10 \<notin> set g" "r3 = g @ rest" "rest = [] \<or> hd rest = 10"
    by (elim exE conjE)
  have "t = m @ ws1 @ c @ ws2 @ g @ rest"
    using m(1) 1(1) 2(1) 3(1) 4(3) by simp
  with m(2) 1(2) 2(2) 3(2) 4(1,2,4)
  have "t = m @ ws1 @ c @ ws2 @ g @ rest \<and> list_all2 ci k m \<and>
        list_all isspace ws1 \<and> (c = [] \<or> c = [58] \<or> c = [65306]) \<and> list_all isspace ws2 \<and>
        g \<noteq> [] \<and> 10 \<notin> set g \<and> (rest = [] \<or> hd rest = 10)"
    by simp
  then show ?thesis by (intro exI)
qed

lemma re_match_same_line:
  assumes lit: "re_literal ci k t = Some (ws1 @ c @ ws2 @ x # r)"
    and ws1: "list_all isspace ws1" and ws2: "list_all isspace ws2"
    and c: "c = [] \<or> c = [58] \<or> c = [65306]"
    and x: "\<not> isspace x" and xc: "c = [] \<longrightarrow> x \<noteq> 58 \<and> x \<noteq> 65306"
  shows "re_match ci k t = Some (takeWhile (\<lambda>c. c \<noteq> 10) (x # r))"
proof -
  let ?g = "takeWhile (\<lambda>c. c \<noteq> 10) (x # r)"
  from x have x10: "x \<noteq> 10" using isspace_newline by auto
  then have grp: "re_group (x # r) = Some ?g"
    by (simp add: re_group_def)
  have sp2: "re_spaces re_group (ws2 @ x # r) = Some ?g"
    using re_spaces_greedy [where k = re_group and ws = ws2 and r = "x # r"] ws2 x grp by simp
  have "re_spaces (re_colon (re_spaces re_group)) (ws1 @ c @ ws2 @ x # r) = Some ?g"
  proof (cases "c = []")
    case True
    with xc have "re_colon (re_spaces re_group) (x # r) = Some ?g"
      using x grp by (simp add: re_colon_def)
    then have "re_spaces (re_colon (re_spaces re_group)) ((ws1 @ ws2) @ x # r) = Some ?g"
      using re_spaces_greedy [where k = "re_colon (re_spaces re_group)" and ws = "ws1 @ ws2" and r = "x # r"]
        ws1 ws2 x by simp
    with True show ?thesis by simp
  next
    case False
    with c obtain y where y: "c = [y]" "y = 58 \<or> y = 65306" by auto
    then have ny: "\<not> isspace y" by (auto simp: isspace_def)
    have "re_colon (re_spaces re_group) (y # ws2 @ x # r) = Some ?g"
      using y(2) sp2 by (auto simp: re_colon_def)
    then have "re_spaces (re_colon (re_spaces re_group)) (ws1 @ (y # ws2 @ x # r)) = Some ?g"
      using re_spaces_greedy [where k = "re_colon (re_spaces re_group)" and ws = ws1 and r = "y # ws2 @ x # r"]
        ws1 ny by simp
    with y(1) show ?thesis by simp
  qed
  with lit show ?thesis by (simp add: re_match_def)
qed

lemma re_spaces_None: "re_spaces k t = None \<Longrightarrow> k t = None"
  by (cases t) (auto split: if_splits option.splits)

lemma re_colon_None: "re_colon k t = None \<Longrightarrow> k t = None"
  by (cases t) (auto simp: re_colon_def split: if_splits option.splits)

lemma re_tail_None_newlines:
  "re_spaces (re_colon (re_spaces re_group)) r = None \<Longrightarrow> set r \<subseteq> {10}"
proof (induction r)
  case Nil
  show ?case by simp
next
  case (Cons x r)
  from Cons.prems have "re_colon (re_spaces re_group) (x # r) = None"
    by (rule re_spaces_None)
  then have "re_spaces re_group (x # r) = None"
    by (rule re_colon_None)
  then have "re_group (x # r) = None"
    by (rule re_spaces_None)
  then have x: "x = 10"
    by (simp add: re_group_def split: if_splits)
  with Cons.prems have "re_spaces (re_colon (re_spaces re_group)) r = None"
    by (simp add: isspace_newline split: option.splits)
  then have "set r \<subseteq> {10}" by (rule Cons.IH)
  with x show ?case by simp
qed

lemma re_newlines_tail_None:
  assumes "set r \<subseteq> {10}"
  shows "re_spaces (re_colon (re_spaces re_group)) r = None"
proof (rule ccontr)
  assume "re_spaces (re_colon (re_spaces re_group)) r \<noteq> None"
  then obtain g where g: "re_spaces (re_colon (re_spaces re_group)) r = Some g" by auto
  from re_spaces_Some [OF g] obtain ws1 r1 where
    1: "r = ws1 @ r1" "re_colon (re_spaces re_group) r1 = Some g"
    by (elim exE conjE)
  from re_colon_Some [OF 1(2)] obtain c r2 where
    2: "r1 = c @ r2" "re_spaces re_group r2 = Some g"
    by (elim exE conjE)
  from re_spaces_Some [OF 2(2)] obtain ws2 r3 where
    3: "r2 = ws2 @ r3" "re_group r3 = Some g"
    by (elim exE conjE)
  from re_group_Some [OF 3(2)] obtain rest where
    4: "g \<noteq> []" "10 \<notin> set g" "r3 = g @ rest"
    by (elim exE conjE)
  from 1(1) 2(1) 3(1) 4(3) have "set g \<subseteq> set r" by auto
  with assms have "set g \<subseteq> {10}" by simp
  with 4(1,2) show False by (cases g) auto
qed

lemma re_literal_rest:
  "re_literal ci k t = Some r \<Longrightarrow> r = drop (length k) t"
  by (induction ci k t rule: re_literal.induct) (auto split: if_splits)

text \<open>
  An occurrence of the label at which the pattern does not match is followed by
  newlines only, up to the end of the text; then the pattern matches at no later
  offset either. So the least offset with a match is the first occurrence of the label.
\<close>

lemma first_match_at_first_occurrence:
  assumes m: "re_match ci k (drop i t) = Some g"
    and first: "\<forall>j<i. re_match ci k (drop j t) = None"
  shows "\<forall>j<i. re_literal ci k (drop j t) = None"
proof (intro allI impI)
  fix j assume ji: "j < i"
  show "re_literal ci k (drop j t) = None"
  proof (rule ccontr)
    assume "re_literal ci k (drop j t) \<noteq> None"
    then obtain rj where rj: "re_literal ci k (drop j t) = Some rj" by auto
    from first ji have "re_match ci k (drop j t) = None" by simp
    with rj have "re_spaces (re_colon (re_spaces re_group)) rj = None"
      by (simp add: re_match_def)
    then have nl: "set rj \<subseteq> {10}" by (rule re_tail_None_newlines)
    from m obtain ri where ri: "re_literal ci k (drop i t) = Some ri"
      and tail: "re_spaces (re_colon (re_spaces re_group)) ri = Some g"
      by (auto simp: re_match_def split: option.splits)
    from re_literal_rest [OF rj] have "rj = drop (length k + j) t" by simp
    moreover from re_literal_rest [OF ri] have "ri = drop (length k + i) t" by simp
    ultimately have "ri = drop (i - j) rj" using ji by (simp add: add.commute)
    then have "set ri \<subseteq> set rj" by (simp add: set_drop_subset)
    with nl have "set ri \<subseteq> {10}" by simp
    then have "re_spaces (re_colon (re_spaces re_group)) ri = None"
      by (rule re_newlines_tail_None)
    with tail show False by simp
  qed
qed


section \<open>The keyword locator returns the first match of the first label\<close>

text \<open>
  A plain label has no parenthesis, so its pattern always compiles and group 1 is the
  captured value.
\<close>

lemma special_parens: "re_special 40" "re_special 41"
  by (simp_all add: re_special_def)

lemma plain_label_Cons: "plain_label (c # cs) \<longleftrightarrow> \<not> re_special c \<and> plain_label cs"
  by (simp add: plain_label_def)

lemma plain_is_paren_label: "plain_label k \<Longrightarrow> paren_label k"
  by (simp add: plain_label_def paren_label_def list_all_iff)

lemma plain_no_parens: "plain_label k \<Longrightarrow> 40 \<notin> set k \<and> 41 \<notin> set k"
  using special_parens by (auto simp: plain_label_def list_all_iff)

lemma plain_strip_parens: "plain_label k \<Longrightarrow> strip_parens k = k"
  using plain_no_parens [of k] by (auto simp: strip_parens_def filter_id_conv)

lemma plain_parens_balanced: "plain_label k \<Longrightarrow> parens_balanced d k \<longleftrightarrow> d = 0"
proof (induction k arbitrary: d)
  case Nil
  show ?case by simp
next
  case (Cons c cs)
  from Cons.prems have c: "c \<noteq> 40" "c \<noteq> 41" and cs: "plain_label cs"
    using special_parens by (auto simp: plain_label_Cons)
  from Cons.IH [OF cs] c show ?case by simp
qed

lemma plain_re_match_grouped:
  assumes "plain_label k"
  shows "re_match_grouped ci k t = re_match ci k t"
  using plain_no_parens [OF assms] plain_strip_parens [OF assms]
  by (simp add: re_match_grouped_def re_match_def split: option.splits)

lemma plain_re_search_grouped:
  assumes "plain_label k"
  shows "re_search_grouped ci k t = re_search ci k t"
  by (induction t) (simp_all add: plain_re_match_grouped [OF assms] split: option.splits)

text \<open>On plain labels the two models of the locator agree, and nothing is raised.\<close>

lemma find_value_after_keyword_re_plain:
  "\<forall>k\<in>set kws. plain_label k \<Longrightarrow>
   find_value_after_keyword_re env self kws None =
     Some (Inr (find_value_after_keyword env self kws None))"
proof (induction kws)
  case Nil
  show ?case by simp
next
  case (Cons k kws)
  then have k: "plain_label k" and IH: "find_value_after_keyword_re env self kws None =
     Some (Inr (find_value_after_keyword env self kws None))"
    by simp_all
  show ?case
    by (simp add: plain_is_paren_label [OF k] plain_parens_balanced [OF k]
        plain_re_search_grouped [OF k] IH Let_def split: option.splits)
qed

text \<open>
  With a pattern that has a group the two models agree as well, the pattern of the
  first being the first group of the second; a pattern without a group raises as soon
  as it matches the located value.
\<close>

lemma find_value_after_keyword_re_plain_pattern:
  assumes "\<forall>k\<in>set kws. plain_label k" and "\<forall>v. pat v \<noteq> Some []"
  shows "find_value_after_keyword_re env self kws (Some pat) =
     Some (Inr (find_value_after_keyword env self kws (Some (\<lambda>v. map_option hd (pat v)))))"
  using assms(1)
proof (induction kws)
  case Nil
  show ?case by simp
next
  case (Cons k kws)
  then have k: "plain_label k"
    and IH: "find_value_after_keyword_re env self kws (Some pat) =
     Some (Inr (find_value_after_keyword env self kws (Some (\<lambda>v. map_option hd (pat v)))))"
    by simp_all
  show ?case
    using assms(2)
    by (auto simp add: plain_is_paren_label [OF k] plain_parens_balanced [OF k]
        plain_re_search_grouped [OF k] IH Let_def split: option.splits list.splits)
qed

lemma find_value_after_keyword_re_no_group:
  assumes "plain_label k" and "re_search (ci_eq env) k (text_content self) = Some g"
    and "pat (clean_text env g) = Some []"
  shows "find_value_after_keyword_re env self (k # kws) (Some pat) = Some (Inl IndexError)"
  using assms
  by (simp add: plain_is_paren_label plain_parens_balanced plain_re_search_grouped)

text \<open>
  Claim C1, as amended. For every list of plain labels, that is, labels without a
  special character of the pattern language, as all labels of the file are, and every
  text, the keyword locator raises nothing and goes through the labels in the order of
  the list, searching the whole text for each of them. It returns not-found exactly
  when the pattern of no label of the list matches at any offset of the text.
  Otherwise it returns the cleaned group of the match at the least offset of the first
  label of the list that has a match; the labels after that one have no influence on
  the result. The least offset with a match is the first occurrence of that label,
  from the top of the text.
\<close>

theorem locate_first_label_first_occurrence:
  assumes "\<forall>k\<in>set kws. plain_label k"
  shows "(find_value_after_keyword env self kws None = None \<longleftrightarrow>
            (\<forall>k\<in>set kws. \<forall>i. re_match (ci_eq env) k (drop i (text_content self)) = None)) \<and>
         (\<forall>pre k post i g.
            kws = pre @ k # post \<and>
            (\<forall>k'\<in>set pre. \<forall>j. re_match (ci_eq env) k' (drop j (text_content self)) = None) \<and>
            re_match (ci_eq env) k (drop i (text_content self)) = Some g \<and>
            (\<forall>j<i. re_match (ci_eq env) k (drop j (text_content self)) = None) \<longrightarrow>
            find_value_after_keyword env self kws None = Some (clean_text env g)) \<and>
         (\<forall>k i g.
            re_match (ci_eq env) k (drop i (text_content self)) = Some g \<and>
            (\<forall>j<i. re_match (ci_eq env) k (drop j (text_content self)) = None) \<longrightarrow>
            (\<forall>j<i. re_literal (ci_eq env) k (drop j (text_content self)) = None)) \<and>
         find_value_after_keyword_re env self kws None =
           Some (Inr (find_value_after_keyword env self kws None))"
proof (intro conjI allI impI)
  show "find_value_after_keyword env self kws None = None \<longleftrightarrow>
        (\<forall>k\<in>set kws. \<forall>i. re_match (ci_eq env) k (drop i (text_content self)) = None)"
    by (simp add: find_value_None re_search_None)
next
  fix pre k post i g
  assume h: "kws = pre @ k # post \<and>
    (\<forall>k'\<in>set pre. \<forall>j. re_match (ci_eq env) k' (drop j (text_content self)) = None) \<and>
    re_match (ci_eq env) k (drop i (text_content self)) = Some g \<and>
    (\<forall>j<i. re_match (ci_eq env) k (drop j (text_content self)) = None)"
  then have pre: "\<forall>k'\<in>set pre. re_search (ci_eq env) k' (text_content self) = None"
    by (simp add: re_search_None)
  from h have "re_search (ci_eq env) k (text_content self) = Some g"
    by (blast intro: re_search_first)
  with pre have "find_value_after_keyword env self (pre @ k # post) None = Some (clean_text env g)"
    by (simp add: find_value_first)
  with h show "find_value_after_keyword env self kws None = Some (clean_text env g)"
    by simp
next
  fix k i g j
  assume "re_match (ci_eq env) k (drop i (text_content self)) = Some g \<and>
    (\<forall>j<i. re_match (ci_eq env) k (drop j (text_content self)) = None)"
    and "j < i"
  then show "re_literal (ci_eq env) k (drop j (text_content self)) = None"
    using first_match_at_first_occurrence [of "ci_eq env" k i "text_content self" g] by blast
next
  show "find_value_after_keyword_re env self kws None =
          Some (Inr (find_value_after_keyword env self kws None))"
    using assms by (rule find_value_after_keyword_re_plain)
qed

text \<open>
  The example of the specification: the labels \<^verbatim>\<open>Vay de\<close> and \<^verbatim>\<open>Muc dich\<close>, in this
  order, on a text whose two lines both begin with \<^verbatim>\<open>Muc dich:\<close>. The first label
  occurs nowhere, and the second one is found on the first line, with \<^verbatim>\<open>Mua nha\<close>.
\<close>

theorem locate_first_label_first_occurrence_witness:
  "find_value_after_keyword env0 doc_purpose
     [[86, 97, 121, 32, 273, 7875], [77, 7909, 99, 32, 273, 237, 99, 104]] None =
   Some [77, 117, 97, 32, 110, 104, 224]"
proof -
  let ?vay = "[86, 97, 121, 32, 273, 7875] :: pystr"
  let ?muc = "[77, 7909, 99, 32, 273, 237, 99, 104] :: pystr"
  have plain: "\<forall>k\<in>set [?vay, ?muc]. plain_label k"
    by (simp add: plain_label_def re_special_def)
  have "re_search (ci_eq env0) ?vay (text_content doc_purpose) = None"
    by (simp add: doc_purpose_def run_simps)
  then have pre: "\<forall>k'\<in>set [?vay]. \<forall>j. re_match (ci_eq env0) k' (drop j (text_content doc_purpose)) = None"
    by (simp add: re_search_None)
  have m: "re_match (ci_eq env0) ?muc (drop 0 (text_content doc_purpose)) =
           Some [77, 117, 97, 32, 110, 104, 224]"
    by (simp add: doc_purpose_def run_simps)
  have cl: "clean_text env0 [77, 117, 97, 32, 110, 104, 224] = [77, 117, 97, 32, 110, 104, 224]"
    by (simp add: run_simps)
  from locate_first_label_first_occurrence [OF plain, of env0 doc_purpose]
  have "\<forall>pre k post i g.
          [?vay, ?muc] = pre @ k # post \<and>
          (\<forall>k'\<in>set pre. \<forall>j. re_match (ci_eq env0) k' (drop j (text_content doc_purpose)) = None) \<and>
          re_match (ci_eq env0) k (drop i (text_content doc_purpose)) = Some g \<and>
          (\<forall>j<i. re_match (ci_eq env0) k (drop j (text_content doc_purpose)) = None) \<longrightarrow>
          find_value_after_keyword env0 doc_purpose [?vay, ?muc] None = Some (clean_text env0 g)"
    by (rule conjunct2 [THEN conjunct1])
  then have "[?vay, ?muc] = [?vay] @ ?muc # [] \<and>
          (\<forall>k'\<in>set [?vay]. \<forall>j. re_match (ci_eq env0) k' (drop j (text_content doc_purpose)) = None) \<and>
          re_match (ci_eq env0) ?muc (drop 0 (text_content doc_purpose)) = Some [77, 117, 97, 32, 110, 104, 224] \<and>
          (\<forall>j<0. re_match (ci_eq env0) ?muc (drop j (text_content doc_purpose)) = None) \<longrightarrow>
          find_value_after_keyword env0 doc_purpose [?vay, ?muc] None =
            Some (clean_text env0 [77, 117, 97, 32, 110, 104, 224])"
    by blast
  with pre m have "find_value_after_keyword env0 doc_purpose [?vay, ?muc] None =
            Some (clean_text env0 [77, 117, 97, 32, 110, 104, 224])"
    by simp
  with cl show ?thesis by simp
qed

text \<open>
  Claim C1 as stated, for every list of labels, fails on labels with parentheses. On
  the text \<^verbatim>\<open>Vay USD: 5\<close> the label \<^verbatim>\<open>Vay USD\<close> gives the value \<^verbatim>\<open>5\<close> after
  it. The label \<^verbatim>\<open>Vay (USD)\<close> matches the same text, but its parentheses are group
  1, and the locator returns \<^verbatim>\<open>USD\<close>, a part of the label occurrence, not the value
  after it. The label \<^verbatim>\<open>Vay (\<close> has no pattern: the locator raises and never tries
  the label after it, which would match.
\<close>

theorem label_with_parentheses_counterexample:
  "text_content doc_vay_usd = ascii ''Vay USD: 5'' \<and>
   find_value_after_keyword_re env0 doc_vay_usd [ascii ''Vay USD''] None =
     Some (Inr (Some (ascii ''5''))) \<and>
   find_value_after_keyword_re env0 doc_vay_usd [ascii ''Vay (USD)''] None =
     Some (Inr (Some (ascii ''USD''))) \<and>
   find_value_after_keyword_re env0 doc_vay_usd [ascii ''Vay ('', ascii ''Vay USD''] None =
     Some (Inl ReError)"
  by (simp add: doc_vay_usd_def paren_label_def re_special_def strip_parens_def
      re_match_grouped_def run_simps)

section \<open>What the pattern captures\<close>

text \<open>
  Where the search has a result, the text splits into the part before the occurrence of
  the label, the occurrence, whitespace, at most one colon, whitespace, the captured
  value and a rest that is empty or begins with a newline. Where a character that is
  no whitespace follows the label, its colon and the whitespace around it, the value
  begins at that character and ends with its line.
\<close>

lemma re_search_Some_offset:
  "re_search ci k t = Some g \<Longrightarrow>
   \<exists>i. i \<le> length t \<and> re_match ci k (drop i t) = Some g \<and> (\<forall>j<i. re_match ci k (drop j t) = None)"
proof (induction t)
  case Nil
  then have "0 \<le> length ([]::pystr) \<and> re_match ci k (drop 0 []) = Some g \<and>
             (\<forall>j<0. re_match ci k (drop j []) = None)"
    by simp
  then show ?case by (rule exI)
next
  case (Cons x t)
  show ?case
  proof (cases "re_match ci k (x # t)")
    case (Some g')
    with Cons.prems have "g' = g" by simp
    with Some have "0 \<le> length (x # t) \<and> re_match ci k (drop 0 (x # t)) = Some g \<and>
             (\<forall>j<0. re_match ci k (drop j (x # t)) = None)"
      by simp
    then show ?thesis by (rule exI)
  next
    case None
    with Cons.prems have "re_search ci k t = Some g" by simp
    from Cons.IH [OF this] obtain i where i: "i \<le> length t" "re_match ci k (drop i t) = Some g"
      "\<forall>j<i. re_match ci k (drop j t) = None"
      by (elim exE conjE)
    have "\<forall>j<Suc i. re_match ci k (drop j (x # t)) = None"
    proof (intro allI impI)
      fix j assume "j < Suc i"
      then show "re_match ci k (drop j (x # t)) = None"
        using None i(3) by (cases j) simp_all
    qed
    with i(1,2) have "Suc i \<le> length (x # t) \<and> re_match ci k (drop (Suc i) (x # t)) = Some g \<and>
             (\<forall>j<Suc i. re_match ci k (drop j (x # t)) = None)"
      by simp
    then show ?thesis by (rule exI)
  qed
qed

lemma re_literal_occurrence:
  "list_all2 ci k m \<Longrightarrow> re_literal ci k (m @ r) = Some r"
  by (induction k m rule: list_all2_induct) simp_all

lemma re_search_shape:
  assumes "re_search ci k text = Some g"
  shows "\<exists>before m ws1 c ws2 rest.
            text = before @ m @ ws1 @ c @ ws2 @ g @ rest \<and> list_all2 ci k m \<and>
            list_all isspace ws1 \<and> (c = [] \<or> c = [58] \<or> c = [65306]) \<and> list_all isspace ws2 \<and>
            g \<noteq> [] \<and> 10 \<notin> set g \<and> (rest = [] \<or> hd rest = 10)"
proof -
  from re_search_Some_offset [OF assms] obtain i where
    i: "re_match ci k (drop i text) = Some g"
    by (elim exE conjE)
  from re_match_shape [OF i] obtain m ws1 c ws2 rest where
    s: "drop i text = m @ ws1 @ c @ ws2 @ g @ rest" "list_all2 ci k m"
       "list_all isspace ws1" "c = [] \<or> c = [58] \<or> c = [65306]" "list_all isspace ws2"
       "g \<noteq> []" "10 \<notin> set g" "rest = [] \<or> hd rest = 10"
    by (elim exE conjE)
  have "text = take i text @ drop i text" by simp
  with s(1) have "text = take i text @ m @ ws1 @ c @ ws2 @ g @ rest" by simp
  with s(2-) have "text = take i text @ m @ ws1 @ c @ ws2 @ g @ rest \<and> list_all2 ci k m \<and>
            list_all isspace ws1 \<and> (c = [] \<or> c = [58] \<or> c = [65306]) \<and> list_all isspace ws2 \<and>
            g \<noteq> [] \<and> 10 \<notin> set g \<and> (rest = [] \<or> hd rest = 10)"
    by simp
  then show ?thesis by (intro exI)
qed

lemma re_search_first_nonspace:
  assumes split: "text = before @ m @ ws1 @ c @ ws2 @ x # r" and m: "list_all2 ci k m"
    and first: "\<forall>j<length before. re_match ci k (drop j text) = None"
    and ws1: "list_all isspace ws1" and c: "c = [] \<or> c = [58] \<or> c = [65306]"
    and ws2: "list_all isspace ws2"
    and x: "\<not> isspace x" and xc: "c = [] \<longrightarrow> x \<noteq> 58 \<and> x \<noteq> 65306"
  shows "re_search ci k text = Some (takeWhile (\<lambda>c. c \<noteq> 10) (x # r))"
proof -
  from split have d: "drop (length before) text = m @ ws1 @ c @ ws2 @ x # r" by simp
  from m have lit: "re_literal ci k (m @ ws1 @ c @ ws2 @ x # r) = Some (ws1 @ c @ ws2 @ x # r)"
    by (rule re_literal_occurrence)
  have "re_match ci k (m @ ws1 @ c @ ws2 @ x # r) = Some (takeWhile (\<lambda>c. c \<noteq> 10) (x # r))"
    by (rule re_match_same_line [OF lit ws1 ws2 c x xc])
  with d have "re_match ci k (drop (length before) text) = Some (takeWhile (\<lambda>c. c \<noteq> 10) (x # r))"
    by simp
  then show ?thesis using first by (rule re_search_first)
qed

lemma rest_of_line_of_label:
  fixes ws1 ws2 c r :: pystr
  assumes "10 \<notin> set ws1" and "10 \<notin> set ws2" and "c = [] \<or> c = [58] \<or> c = [65306]"
  shows "takeWhile (\<lambda>c. c \<noteq> 10) (ws1 @ c @ ws2 @ x # r) =
         ws1 @ c @ ws2 @ takeWhile (\<lambda>c. c \<noteq> 10) (x # r)"
proof -
  have "takeWhile (\<lambda>c. c \<noteq> 10) ((ws1 @ c @ ws2) @ x # r) =
        (ws1 @ c @ ws2) @ takeWhile (\<lambda>c. c \<noteq> 10) (x # r)"
  proof (rule takeWhile_append2)
    fix y assume "y \<in> set (ws1 @ c @ ws2)"
    with assms show "y \<noteq> 10" by auto
  qed
  then show ?thesis by simp
qed

lemma find_value_single:
  "find_value_after_keyword env self [k] None =
     map_option (clean_text env) (re_search (ci_eq env) k (text_content self))"
  by (simp split: option.splits)

text \<open>
  Claim C5. The value returned for a matching label should be the rest of the line of
  the label, never text of a later line. The source does not do this: \<^verbatim>\<open>\s*\<close>
  also matches newlines, so when nothing but whitespace follows the label and its
  colon on their line, the pattern goes on to the next line that has text and captures
  that. On the two lines \<^verbatim>\<open>Ho va ten:\<close> and \<^verbatim>\<open>CCCD: 0123\<close> (with their
  diacritics) the line of the name label ends after the colon, and the customer
  extractor returns the whole next line, \<^verbatim>\<open>CCCD: 0123\<close>, as the name.
\<close>

theorem value_taken_from_next_line:
  "takeWhile (\<lambda>c. c \<noteq> 10) (text_content doc_name_on_own_line) =
     [72, 7885, 32, 118, 224, 32, 116, 234, 110, 58] \<and>
   find_value_after_keyword env0 doc_name_on_own_line name_keywords None =
     Some (ascii ''CCCD: 0123'') \<and>
   extract_customer_info env0 doc_name_on_own_line =
     [(''name'', PStr (ascii ''CCCD: 0123'')),
      (''cccd'', PStr (ascii ''0123'')),
      (''address'', PStr []),
      (''phone'', PStr [])]"
  by (simp add: doc_name_on_own_line_def extract_customer_info_def name_keywords_def
      cccd_keywords_def address_keywords_def phone_keywords_def run_simps)

section \<open>The numeric locator\<close>

text \<open>The runs of a character class: there is one exactly when the class has a character in
  the string, and the first one begins at the first such character.\<close>

lemma re_findall_Nil: "re_findall p s = [] \<longleftrightarrow> \<not> list_ex p s"
proof (cases "dropWhile (\<lambda>c. \<not> p c) s")
  case Nil
  then have "re_findall p s = []"
    by (simp only: re_findall.simps [of p s] list.case)
  moreover from Nil have "\<not> list_ex p s"
    by (auto simp: list_ex_iff)
  ultimately show ?thesis by simp
next
  case (Cons c r)
  then have "re_findall p s \<noteq> []"
    by (simp only: re_findall.simps [of p s] list.case) simp
  moreover from Cons have "list_ex p s"
    using dropWhile_eq_Nil_conv [of "\<lambda>c. \<not> p c" s] by (auto simp: list_ex_iff)
  ultimately show ?thesis by simp
qed

lemma re_findall_first:
  assumes "re_findall p s = n # ns"
  shows "n = takeWhile p (dropWhile (\<lambda>c. \<not> p c) s)"
proof (cases "dropWhile (\<lambda>c. \<not> p c) s")
  case Nil
  then have "re_findall p s = []"
    by (simp only: re_findall.simps [of p s] list.case)
  with assms show ?thesis by simp
next
  case (Cons c r)
  then have "re_findall p s = (c # takeWhile p r) # re_findall p (dropWhile p r)"
    by (simp only: re_findall.simps [of p s] list.case)
  with assms have n: "n = c # takeWhile p r" by simp
  have "p c" using hd_dropWhile [of "\<lambda>c. \<not> p c" s] Cons by auto
  with n Cons show ?thesis by simp
qed

text \<open>
  Claim C6, as amended. The numeric locator calls the text locator without a pattern.
  When that finds nothing, or its value has no character of the class \<^verbatim>\<open>[\d.,]\<close>,
  the result is 0. Otherwise the result is the numeric parser applied to the first
  maximal run of characters of that class in the value, and to nothing else. The class
  is \<^verbatim>\<open>[\d.,]\<close> with every Unicode decimal digit, not \<^verbatim>\<open>[0-9.,]\<close>.
\<close>

theorem find_number_parses_first_run:
  "find_number_after_keyword env self kws =
     (case find_value_after_keyword env self kws None of
        None \<Rightarrow> 0
      | Some v \<Rightarrow>
          if list_ex number_char v
          then parse_number env (takeWhile number_char (dropWhile (\<lambda>c. \<not> number_char c) v))
          else 0)"
proof (cases "find_value_after_keyword env self kws None")
  case None
  then show ?thesis by (simp add: find_number_after_keyword_def)
next
  case (Some v)
  show ?thesis
  proof (cases "re_findall number_char v")
    case Nil
    then have "\<not> list_ex number_char v" by (simp add: re_findall_Nil)
    with Some Nil show ?thesis by (simp add: find_number_after_keyword_def)
  next
    case (Cons n ns)
    then have n: "n = takeWhile number_char (dropWhile (\<lambda>c. \<not> number_char c) v)"
      by (rule re_findall_first)
    from Cons have ex: "list_ex number_char v"
      using re_findall_Nil [of number_char v] by simp
    then have "v \<noteq> []" by auto
    with Some Cons n ex show ?thesis by (simp add: find_number_after_keyword_def)
  qed
qed

text \<open>The value \<^verbatim>\<open>about 7.5 percent\<close>: the run is \<^verbatim>\<open>7.5\<close>.\<close>

theorem find_number_parses_first_run_witness:
  "find_number_after_keyword env0 doc_value_on_same_line [ascii ''LS''] = 15 / 2"
proof -
  have v: "find_value_after_keyword env0 doc_value_on_same_line [ascii ''LS''] None =
           Some (ascii ''about 7.5 percent'')"
    by (simp add: doc_value_on_same_line_def run_simps)
  have "parse_number env0
          (takeWhile number_char (dropWhile (\<lambda>c. \<not> number_char c) (ascii ''about 7.5 percent''))) = 15 / 2"
    by (simp add: run_simps)
  moreover have "list_ex number_char (ascii ''about 7.5 percent'')"
    by (simp add: run_simps)
  ultimately show ?thesis
    using find_number_parses_first_run [of env0 doc_value_on_same_line "[ascii ''LS'']"] v
    by simp
qed

text \<open>
  Claim C6 as stated fails on the text \<^verbatim>\<open>LS:\<close> followed by a space and the digit
  U+0663 (ARABIC-INDIC DIGIT THREE), for the labels of the interest rate: the located
  value has no character of
  \<^verbatim>\<open>[0-9.,]\<close>, yet the source finds the run of one digit, hands it to the numeric
  parser and returns what the parser reads, which is 3 for a parser that reads digits
  as Python does.
\<close>

theorem unicode_digit_run_counterexample:
  "find_value_after_keyword env0 doc_arabic_digit interest_rate_keywords None = Some [1635] \<and>
   \<not> list_ex spec_number_char [1635] \<and>
   re_findall number_char [1635] = [[1635]] \<and>
   find_number_after_keyword env0 doc_arabic_digit interest_rate_keywords = 3"
  by (simp add: doc_arabic_digit_def interest_rate_keywords_def spec_number_char_def run_simps)

section \<open>The extractors\<close>

lemma label_occurs_iff:
  "label_occurs ci k t \<longleftrightarrow> (\<exists>i. re_literal ci k (drop i t) \<noteq> None)"
proof (induction t)
  case Nil
  show ?case by simp
next
  case (Cons x t)
  have "(\<exists>i. re_literal ci k (drop i (x # t)) \<noteq> None) \<longleftrightarrow>
        \<not> (\<forall>i. re_literal ci k (drop i (x # t)) = None)"
    by simp
  also have "\<dots> \<longleftrightarrow> \<not> (re_literal ci k (x # t) = None \<and> (\<forall>i. re_literal ci k (drop i t) = None))"
    by (subst all_nat_0_Suc) simp
  also have "\<dots> \<longleftrightarrow> label_occurs ci k (x # t)"
    using Cons.IH by simp
  finally show ?case by simp
qed

lemma no_label_no_match:
  assumes "\<not> label_occurs ci k t"
  shows "re_search ci k t = None"
proof -
  from assms have "\<forall>i. re_literal ci k (drop i t) = None"
    by (simp add: label_occurs_iff)
  then have "\<forall>i. re_match ci k (drop i t) = None"
    by (simp add: re_match_def)
  then show ?thesis by (simp add: re_search_None)
qed

lemma find_number_unresolved:
  "find_value_after_keyword env self kws None = None \<Longrightarrow> find_number_after_keyword env self kws = 0"
  by (simp add: find_number_after_keyword_def)

lemma find_number_no_label:
  assumes "\<forall>k\<in>set kws. \<not> label_occurs (ci_eq env) k (text_content self)"
  shows "find_number_after_keyword env self kws = 0"
proof -
  from assms have "\<forall>k\<in>set kws. re_search (ci_eq env) k (text_content self) = None"
    by (simp add: no_label_no_match)
  then have "find_value_after_keyword env self kws None = None"
    by (simp add: find_value_None)
  then show ?thesis by (rule find_number_unresolved)
qed

text \<open>
  The loan extractor returns normally, with this dictionary: the guard of the source
  keeps the division away from a zero divisor.
\<close>

lemma extract_loan_info_eq:
  "extract_loan_info env self =
     Inr [(''purpose'', PStr (py_or (find_value_after_keyword env self purpose_keywords None) Kinh_doanh)),
          (''total_need'', PFloat (find_number_after_keyword env self total_need_keywords)),
          (''equity'', PFloat (find_number_after_keyword env self equity_keywords)),
          (''loan_amount'', PFloat
             (if find_number_after_keyword env self loan_amount_keywords = 0 \<and>
                 find_number_after_keyword env self total_need_keywords > 0
              then find_number_after_keyword env self total_need_keywords -
                   find_number_after_keyword env self equity_keywords
              else find_number_after_keyword env self loan_amount_keywords)),
          (''equity_ratio'',
             if find_number_after_keyword env self total_need_keywords > 0
             then PFloat (find_number_after_keyword env self equity_keywords /
                          find_number_after_keyword env self total_need_keywords * 100)
             else PInt 0),
          (''interest_rate'', PFloat
             (if find_number_after_keyword env self interest_rate_keywords = 0 then 17 / 2
              else find_number_after_keyword env self interest_rate_keywords)),
          (''loan_term'', PInt (py_int
             (if find_number_after_keyword env self loan_term_keywords = 0 then 120
              else find_number_after_keyword env self loan_term_keywords))),
          (''payment_frequency'', PStr Thang)]"
proof (cases "find_number_after_keyword env self total_need_keywords > 0")
  case True
  then have "find_number_after_keyword env self total_need_keywords \<noteq> 0" by simp
  with True show ?thesis
    by (simp add: extract_loan_info_def Let_def py_truediv_def)
next
  case False
  then show ?thesis
    by (simp add: extract_loan_info_def Let_def)
qed

lemma loan_field_simps:
  "loan_field env self ''loan_amount'' = Some (PFloat
             (if find_number_after_keyword env self loan_amount_keywords = 0 \<and>
                 find_number_after_keyword env self total_need_keywords > 0
              then find_number_after_keyword env self total_need_keywords -
                   find_number_after_keyword env self equity_keywords
              else find_number_after_keyword env self loan_amount_keywords))"
  "loan_field env self ''equity_ratio'' = Some
             (if find_number_after_keyword env self total_need_keywords > 0
             then PFloat (find_number_after_keyword env self equity_keywords /
                          find_number_after_keyword env self total_need_keywords * 100)
             else PInt 0)"
  "loan_field env self ''interest_rate'' = Some (PFloat
             (if find_number_after_keyword env self interest_rate_keywords = 0 then 17 / 2
              else find_number_after_keyword env self interest_rate_keywords))"
  "loan_field env self ''loan_term'' = Some (PInt (py_int
             (if find_number_after_keyword env self loan_term_keywords = 0 then 120
              else find_number_after_keyword env self loan_term_keywords)))"
  "loan_field env self ''purpose'' =
     Some (PStr (py_or (find_value_after_keyword env self purpose_keywords None) Kinh_doanh))"
  "loan_field env self ''total_need'' = Some (PFloat (find_number_after_keyword env self total_need_keywords))"
  "loan_field env self ''equity'' = Some (PFloat (find_number_after_keyword env self equity_keywords))"
  "loan_field env self ''payment_frequency'' = Some (PStr Thang)"
  by (simp_all add: loan_field_def extract_loan_info_eq)

lemma py_int_small: "0 < x \<Longrightarrow> x < 1 \<Longrightarrow> py_int x = 0"
  by (simp add: py_int_def floor_eq_iff)

lemma py_int_truncates:
  "(0 \<le> x \<longrightarrow> 0 \<le> py_int x \<and> of_int (py_int x) \<le> x \<and> x < of_int (py_int x) + 1) \<and>
   (x \<le> 0 \<longrightarrow> py_int x \<le> 0 \<and> x \<le> of_int (py_int x) \<and> of_int (py_int x) - 1 < x)"
  by (auto simp: py_int_def) linarith+

lemmas keyword_defs =
  name_keywords_def cccd_keywords_def address_keywords_def phone_keywords_def
  purpose_keywords_def total_need_keywords_def equity_keywords_def
  loan_amount_keywords_def interest_rate_keywords_def loan_term_keywords_def
  asset_type_keywords_def market_value_keywords_def asset_address_keywords_def
  ltv_keywords_def legal_docs_keywords_def monthly_income_keywords_def
  monthly_expense_keywords_def other_debt_keywords_def

text \<open>
  Claim C2. In the loan extractor, when the numeric lookup of the loan amount is
  exactly 0 and \<open>total_need\<close> is positive, the loan amount of the result is
  \<open>total_need - equity\<close>. The equity ratio is \<open>equity / total_need * 100\<close> for a
  positive \<open>total_need\<close> and the integer 0 otherwise. In particular a text with
  \<open>total_need = 1000000000\<close>, \<open>equity = 200000000\<close> and no match for the loan
  amount gives the loan amount 800000000 and the equity ratio 20.
\<close>

theorem loan_amount_derived_when_lookup_is_zero:
  fixes env :: env and self :: docx_parser
  defines "total_need \<equiv> find_number_after_keyword env self total_need_keywords"
    and "equity \<equiv> find_number_after_keyword env self equity_keywords"
    and "loan_amount \<equiv> find_number_after_keyword env self loan_amount_keywords"
  shows
    "(loan_amount = 0 \<and> total_need > 0 \<longrightarrow>
        loan_field env self ''loan_amount'' = Some (PFloat (total_need - equity))) \<and>
     loan_field env self ''equity_ratio'' =
        Some (if total_need > 0 then PFloat (equity / total_need * 100) else PInt 0) \<and>
     (total_need = 1000000000 \<and> equity = 200000000 \<and>
      find_value_after_keyword env self loan_amount_keywords None = None \<longrightarrow>
        loan_field env self ''loan_amount'' = Some (PFloat 800000000) \<and>
        loan_field env self ''equity_ratio'' = Some (PFloat 20))"
proof (intro conjI impI)
  assume "loan_amount = 0 \<and> total_need > 0"
  then show "loan_field env self ''loan_amount'' = Some (PFloat (total_need - equity))"
    by (simp add: loan_field_simps total_need_def equity_def loan_amount_def)
next
  show "loan_field env self ''equity_ratio'' =
        Some (if total_need > 0 then PFloat (equity / total_need * 100) else PInt 0)"
    by (simp add: loan_field_simps total_need_def equity_def)
next
  assume h: "total_need = 1000000000 \<and> equity = 200000000 \<and>
      find_value_after_keyword env self loan_amount_keywords None = None"
  then have "loan_amount = 0"
    by (simp add: loan_amount_def find_number_unresolved)
  with h show "loan_field env self ''loan_amount'' = Some (PFloat 800000000)"
    by (simp add: loan_field_simps total_need_def equity_def loan_amount_def)
next
  assume h: "total_need = 1000000000 \<and> equity = 200000000 \<and>
      find_value_after_keyword env self loan_amount_keywords None = None"
  then show "loan_field env self ''equity_ratio'' = Some (PFloat 20)"
    by (simp add: loan_field_simps total_need_def equity_def)
qed

text \<open>
  The two lines \<^verbatim>\<open>Tong nhu cau von: 1000000000\<close> and \<^verbatim>\<open>Von doi ung: 200000000\<close>
  (with their diacritics) are such a text.
\<close>

theorem loan_amount_derived_when_lookup_is_zero_witness:
  "loan_field env0 doc_need_equity ''loan_amount'' = Some (PFloat 800000000) \<and>
   loan_field env0 doc_need_equity ''equity_ratio'' = Some (PFloat 20)"
proof -
  have tn: "find_number_after_keyword env0 doc_need_equity total_need_keywords = 1000000000"
    by (simp add: doc_need_equity_def total_need_keywords_def run_simps)
  have eq: "find_number_after_keyword env0 doc_need_equity equity_keywords = 200000000"
    by (simp add: doc_need_equity_def equity_keywords_def run_simps)
  have la: "find_value_after_keyword env0 doc_need_equity loan_amount_keywords None = None"
    by (simp add: doc_need_equity_def loan_amount_keywords_def run_simps)
  from loan_amount_derived_when_lookup_is_zero [of env0 doc_need_equity] tn eq la
  show ?thesis by simp
qed

text \<open>
  Claim C3. For every text that contains no interest-rate label and no loan-term
  label, the loan extractor returns the interest rate 8.5 and the loan term 120. More
  generally an interest-rate lookup of exactly 0 gives 8.5 and any other lookup is
  returned as it is; a loan-term lookup of exactly 0 gives 120, and any other lookup is
  returned truncated to an integer: \<open>py_int\<close> is the truncation towards zero.
\<close>

theorem interest_and_term_defaults:
  fixes env :: env and self :: docx_parser
  defines "interest_rate \<equiv> find_number_after_keyword env self interest_rate_keywords"
    and "loan_term \<equiv> find_number_after_keyword env self loan_term_keywords"
  shows
    "((\<forall>k\<in>set interest_rate_keywords. \<not> label_occurs (ci_eq env) k (text_content self)) \<and>
      (\<forall>k\<in>set loan_term_keywords. \<not> label_occurs (ci_eq env) k (text_content self)) \<longrightarrow>
        loan_field env self ''interest_rate'' = Some (PFloat (17 / 2)) \<and>
        loan_field env self ''loan_term'' = Some (PInt 120)) \<and>
     (interest_rate = 0 \<longrightarrow> loan_field env self ''interest_rate'' = Some (PFloat (17 / 2))) \<and>
     (interest_rate \<noteq> 0 \<longrightarrow> loan_field env self ''interest_rate'' = Some (PFloat interest_rate)) \<and>
     (loan_term = 0 \<longrightarrow> loan_field env self ''loan_term'' = Some (PInt 120)) \<and>
     (loan_term \<noteq> 0 \<longrightarrow> loan_field env self ''loan_term'' = Some (PInt (py_int loan_term))) \<and>
     (\<forall>x. (0 \<le> x \<longrightarrow> 0 \<le> py_int x \<and> of_int (py_int x) \<le> x \<and> x < of_int (py_int x) + 1) \<and>
          (x \<le> 0 \<longrightarrow> py_int x \<le> 0 \<and> x \<le> of_int (py_int x) \<and> of_int (py_int x) - 1 < x))"
proof (intro conjI impI allI)
  assume h: "(\<forall>k\<in>set interest_rate_keywords. \<not> label_occurs (ci_eq env) k (text_content self)) \<and>
      (\<forall>k\<in>set loan_term_keywords. \<not> label_occurs (ci_eq env) k (text_content self))"
  then have "interest_rate = 0"
    unfolding interest_rate_def by (intro find_number_no_label) simp
  then show "loan_field env self ''interest_rate'' = Some (PFloat (17 / 2))"
    by (simp add: loan_field_simps interest_rate_def)
  from h have "loan_term = 0"
    unfolding loan_term_def by (intro find_number_no_label) simp
  then show "loan_field env self ''loan_term'' = Some (PInt 120)"
    by (simp add: loan_field_simps loan_term_def py_int_def)
next
  assume "interest_rate = 0"
  then show "loan_field env self ''interest_rate'' = Some (PFloat (17 / 2))"
    by (simp add: loan_field_simps interest_rate_def)
next
  assume "interest_rate \<noteq> 0"
  then show "loan_field env self ''interest_rate'' = Some (PFloat interest_rate)"
    by (simp add: loan_field_simps interest_rate_def)
next
  assume "loan_term = 0"
  then show "loan_field env self ''loan_term'' = Some (PInt 120)"
    by (simp add: loan_field_simps loan_term_def py_int_def)
next
  assume "loan_term \<noteq> 0"
  then show "loan_field env self ''loan_term'' = Some (PInt (py_int loan_term))"
    by (simp add: loan_field_simps loan_term_def)
next
  fix x :: rat
  assume "0 \<le> x"
  then show "0 \<le> py_int x" "of_int (py_int x) \<le> x" "x < of_int (py_int x) + 1"
    using py_int_truncates [of x] by simp_all
next
  fix x :: rat
  assume "x \<le> 0"
  then show "py_int x \<le> 0" "x \<le> of_int (py_int x)" "of_int (py_int x) - 1 < x"
    using py_int_truncates [of x] by simp_all
qed

text \<open>The text of two lines above has none of the eight labels.\<close>

theorem interest_and_term_defaults_witness:
  "loan_field env0 doc_need_equity ''interest_rate'' = Some (PFloat (17 / 2)) \<and>
   loan_field env0 doc_need_equity ''loan_term'' = Some (PInt 120)"
proof -
  have i: "\<forall>k\<in>set interest_rate_keywords.
             \<not> label_occurs (ci_eq env0) k (text_content doc_need_equity)"
    by (simp add: interest_rate_keywords_def doc_need_equity_def env0_def casefold0_def)
  have t: "\<forall>k\<in>set loan_term_keywords.
             \<not> label_occurs (ci_eq env0) k (text_content doc_need_equity)"
    by (simp add: loan_term_keywords_def doc_need_equity_def env0_def casefold0_def)
  from interest_and_term_defaults [of env0 doc_need_equity] i t
  show ?thesis by blast
qed

text \<open>
  Claim C9. The loan amount of the result can be negative: whenever the lookup of the
  loan amount is exactly 0, \<open>total_need\<close> is positive and the equity looked up is
  above \<open>total_need\<close>, the result holds \<open>total_need - equity\<close>, which is below
  zero; nothing clamps it.
\<close>

theorem negative_loan_amount:
  fixes env :: env and self :: docx_parser
  defines "total_need \<equiv> find_number_after_keyword env self total_need_keywords"
    and "equity \<equiv> find_number_after_keyword env self equity_keywords"
    and "loan_amount \<equiv> find_number_after_keyword env self loan_amount_keywords"
  shows
    "loan_amount = 0 \<and> total_need > 0 \<and> equity > total_need \<longrightarrow>
       (\<exists>x. loan_field env self ''loan_amount'' = Some (PFloat x) \<and> x = total_need - equity \<and> x < 0)"
  by (simp add: loan_field_simps total_need_def equity_def loan_amount_def)

text \<open>
  Such an input: the two lines \<^verbatim>\<open>Tong nhu cau von: 100\<close> and \<^verbatim>\<open>Von doi ung: 300\<close>
  (with their diacritics) give the loan amount -200.
\<close>

theorem negative_loan_amount_witness:
  "loan_field env0 doc_equity_above_need ''loan_amount'' = Some (PFloat (- 200))"
proof -
  have tn: "find_number_after_keyword env0 doc_equity_above_need total_need_keywords = 100"
    by (simp add: doc_equity_above_need_def total_need_keywords_def run_simps)
  have eq: "find_number_after_keyword env0 doc_equity_above_need equity_keywords = 300"
    by (simp add: doc_equity_above_need_def equity_keywords_def run_simps)
  have la: "find_number_after_keyword env0 doc_equity_above_need loan_amount_keywords = 0"
    by (simp add: doc_equity_above_need_def loan_amount_keywords_def run_simps)
  from negative_loan_amount [of env0 doc_equity_above_need] tn eq la
  show ?thesis by simp
qed

text \<open>
  Claim C10. The loan term of the result can be 0: a loan-term lookup strictly between 0
  and 1 is not 0, so the default of 120 is not taken, and its truncation is 0.
\<close>

theorem loan_term_zero_for_fraction:
  fixes env :: env and self :: docx_parser
  defines "loan_term \<equiv> find_number_after_keyword env self loan_term_keywords"
  shows "0 < loan_term \<and> loan_term < 1 \<longrightarrow> loan_field env self ''loan_term'' = Some (PInt 0)"
  by (simp add: loan_field_simps loan_term_def py_int_small)

text \<open>
  Such an input: the line \<^verbatim>\<open>Thoi han vay: 0.5 nam\<close> (with its diacritics), whose
  lookup is one half.
\<close>

theorem loan_term_zero_for_fraction_witness:
  "find_number_after_keyword env0 doc_half_month loan_term_keywords = 1 / 2 \<and>
   loan_field env0 doc_half_month ''loan_term'' = Some (PInt 0)"
proof -
  have lt: "find_number_after_keyword env0 doc_half_month loan_term_keywords = 1 / 2"
    by (simp add: doc_half_month_def loan_term_keywords_def run_simps)
  from loan_term_zero_for_fraction [of env0 doc_half_month] lt
  show ?thesis by simp
qed

section \<open>A loan term beyond the doubles\<close>

text \<open>
  With \<^verbatim>\<open>int\<close> of a double, the loan extractor and the assembly raise
  \<^verbatim>\<open>OverflowError\<close> exactly when the loan term read is an infinity, and return what
  they return above otherwise.
\<close>

lemma extract_loan_info_double_eq:
  "extract_loan_info_double env self =
     (if double_inf (if find_number_after_keyword env self loan_term_keywords = 0 then 120
                     else find_number_after_keyword env self loan_term_keywords)
      then Inl OverflowError
      else extract_loan_info env self)"
proof (cases "find_number_after_keyword env self total_need_keywords > 0")
  case True
  then have "find_number_after_keyword env self total_need_keywords \<noteq> 0" by simp
  with True show ?thesis
    by (simp add: extract_loan_info_double_def extract_loan_info_def Let_def py_truediv_def
        py_int_double_def)
next
  case False
  then show ?thesis
    by (simp add: extract_loan_info_double_def extract_loan_info_def Let_def py_int_double_def)
qed

lemma parse_full_document_double_eq:
  "parse_full_document_double env self =
     (if double_inf (if find_number_after_keyword env self loan_term_keywords = 0 then 120
                     else find_number_after_keyword env self loan_term_keywords)
      then Inl OverflowError
      else parse_full_document env self)"
  by (simp add: parse_full_document_double_def parse_full_document_def Let_def
      extract_loan_info_double_eq)

text \<open>
  A document whose loan term is 1 followed by 309 zeros. The steps of the lookup, for
  the helpers of the concrete environment.
\<close>

lemma squeeze_no_space: "\<forall>c\<in>set s. \<not> isspace c \<Longrightarrow> squeeze False s = s"
  by (induction s) simp_all

lemma clean_text0_no_space:
  assumes "\<forall>c\<in>set s. \<not> isspace c"
  shows "clean_text0 s = s"
proof -
  have "dropWhile isspace s = s"
    using assms by (cases s) simp_all
  with assms show ?thesis by (simp add: clean_text0_def squeeze_no_space)
qed

lemma re_findall_whole:
  assumes "s \<noteq> []" and "\<forall>c\<in>set s. p c"
  shows "re_findall p s = [s]"
proof -
  from assms obtain c r where s: "s = c # r" by (cases s) auto
  with assms(2) have c: "p c" and r: "\<forall>x\<in>set r. p x" by simp_all
  from c s have d: "dropWhile (\<lambda>c. \<not> p c) s = c # r" by simp
  from r have tr: "takeWhile p r = r" and dr: "dropWhile p r = []" by simp_all
  have e: "re_findall p [] = []"
    by (simp only: re_findall.simps [of p "[]"] dropWhile.simps list.case)
  have "re_findall p s = (c # takeWhile p r) # re_findall p (dropWhile p r)"
    by (simp only: re_findall.simps [of p s] d list.case)
  then show ?thesis
    by (simp only: tr dr e s)
qed

lemma digit_zero_one: "isdecimal 48" "isdecimal 49" "digit_value 48 = 0" "digit_value 49 = 1"
  by (simp_all add: isdecimal_def digit_value_def decimal_zeros_def)

lemma digits_zeros:
  "foldl (\<lambda>acc d. 10 * acc + rat_of_nat (digit_value d)) a (replicate n 48) = a * 10 ^ n"
  by (induction n arbitrary: a) (simp_all add: digit_zero_one)

lemma parse_number0_power_of_ten: "parse_number0 (49 # replicate n 48) = 10 ^ n"
proof -
  let ?s = "49 # replicate n 48 :: pystr"
  have set: "set ?s \<subseteq> {48, 49}" by auto
  have dec: "\<forall>c\<in>set ?s. isdecimal c"
    using digit_zero_one by auto
  then have f: "filter number_char ?s = ?s"
    by (auto simp: number_char_def filter_id_conv)
  have nosep: "46 \<notin> set ?s" "44 \<notin> set ?s" by auto
  have ex: "list_ex isdecimal ?s"
    using digit_zero_one by simp
  have "parse_number0 ?s = digits_rat ?s"
    unfolding parse_number0_def Let_def f using nosep ex by simp
  also have "\<dots> = 10 ^ n"
    by (simp add: digits_rat_def digits_zeros digit_zero_one)
  finally show ?thesis .
qed

lemma long_term_value:
  "find_value_after_keyword env0 doc_long_term loan_term_keywords None =
     Some (49 # replicate 309 48)"
proof -
  have g: "re_search (ci_eq env0)
             [84, 104, 7901, 105, 32, 103, 105, 97, 110, 32, 118, 97, 121]
             (text_content doc_long_term) = Some (49 # replicate 309 48)"
    by (simp add: doc_long_term_def env0_def casefold0_def re_match_def re_colon_def
        re_group_def isspace_def takeWhile_replicate)
  have "\<forall>c\<in>set (49 # replicate 309 48). \<not> isspace c"
    by (auto simp: isspace_def)
  then have "clean_text env0 (49 # replicate 309 48) = 49 # replicate 309 48"
    by (simp add: env0_def clean_text0_no_space)
  with g show ?thesis
    by (simp add: loan_term_keywords_def)
qed

lemma long_term_number:
  "find_number_after_keyword env0 doc_long_term loan_term_keywords = 10 ^ 309"
proof -
  have "\<forall>c\<in>set (49 # replicate 309 48). number_char c"
    using digit_zero_one by (auto simp: number_char_def)
  then have "re_findall number_char (49 # replicate 309 48) = [49 # replicate 309 48]"
    by (intro re_findall_whole) simp_all
  moreover have "parse_number env0 (49 # replicate 309 48) = 10 ^ 309"
    by (simp add: env0_def parse_number0_power_of_ten)
  ultimately show ?thesis
    by (simp add: find_number_after_keyword_def long_term_value)
qed

text \<open>
  Claim C7. The engine should never raise for malformed data. The source guards its
  lookups (\<^verbatim>\<open>if value:\<close>, \<^verbatim>\<open>if numbers:\<close>, \<^verbatim>\<open>or\<close>) and its division, but not the
  conversion \<^verbatim>\<open>int(loan_term)\<close> of line 145: for the line \<^verbatim>\<open>Thoi gian vay:\<close> (with
  its diacritics) followed by 1 and 309 zeros, the number read is \<open>10 ^ 309\<close>, which
  is an infinity as a double, and both the loan extractor and the assembly raise
  \<^verbatim>\<open>OverflowError\<close>.
\<close>

theorem infinite_loan_term_raises:
  "find_number_after_keyword env0 doc_long_term loan_term_keywords = 10 ^ 309 \<and>
   extract_loan_info_double env0 doc_long_term = Inl OverflowError \<and>
   parse_full_document_double env0 doc_long_term = Inl OverflowError"
proof -
  have "double_inf (10 ^ 309)"
    by (simp add: double_inf_def)
  then show ?thesis
    by (simp add: long_term_number extract_loan_info_double_eq parse_full_document_double_eq)
qed

section \<open>The empty document\<close>

lemma find_value_empty_text:
  assumes "text_content self = []" and "[] \<notin> set kws"
  shows "find_value_after_keyword env self kws pattern = None"
  using assms(2)
proof (induction kws)
  case Nil
  show ?case by simp
next
  case (Cons k kws)
  then obtain c cs where "k = c # cs" by (cases k) auto
  then have "re_search (ci_eq env) k (text_content self) = None"
    by (simp add: assms(1) re_match_def)
  with Cons show ?case by simp
qed

lemma labels_nonempty: "list_all (\<lambda>kws. [] \<notin> set kws) keyword_lists"
  by (simp add: keyword_lists_def keyword_defs)

lemma find_value_empty_text_labels:
  assumes "text_content self = []"
  shows "list_all (\<lambda>kws. find_value_after_keyword env self kws None = None) keyword_lists"
proof -
  have "\<forall>kws \<in> set keyword_lists. find_value_after_keyword env self kws None = None"
    using labels_nonempty assms by (auto simp: list_all_iff intro: find_value_empty_text)
  then show ?thesis by (simp add: list_all_iff)
qed

text \<open>
  Claim C4, as amended. For a parser object whose text is the empty string and whose
  list of tables is empty, the assembled document has every field at its default and
  the empty string as raw text. The default of a text field is the empty string for the
  four customer fields and the address of the asset, but \<^verbatim>\<open>Kinh doanh\<close> for the
  purpose, \<^verbatim>\<open>Bat dong san\<close> for the type of the asset, the land-use certificate
  string for the legal documents and the constant \<^verbatim>\<open>Thang\<close> for the payment
  frequency (all with their diacritics). The numeric defaults are 0, the integer 0 for
  the equity ratio, 8.5 for the interest rate, 120 for the loan term and 70 for the
  loan-to-value ratio.
\<close>

theorem empty_document_defaults:
  assumes "text_content self = []" and "tables self = []"
  shows "parse_full_document env self =
    Inr [(''customer_info'', PDict
           [(''name'', PStr []), (''cccd'', PStr []), (''address'', PStr []), (''phone'', PStr [])]),
         (''loan_info'', PDict
           [(''purpose'', PStr Kinh_doanh),
            (''total_need'', PFloat 0),
            (''equity'', PFloat 0),
            (''loan_amount'', PFloat 0),
            (''equity_ratio'', PInt 0),
            (''interest_rate'', PFloat (17 / 2)),
            (''loan_term'', PInt 120),
            (''payment_frequency'', PStr Thang)]),
         (''collateral_info'', PDict
           [(''asset_type'', PStr Bat_dong_san),
            (''market_value'', PFloat 0),
            (''asset_address'', PStr []),
            (''ltv'', PFloat 70),
            (''legal_docs'', PStr So_do_Giay_chung_nhan)]),
         (''financial_info'', PDict
           [(''monthly_income'', PFloat 0), (''monthly_expense'', PFloat 0), (''other_debt'', PFloat 0)]),
         (''raw_text'', PStr [])]"
proof -
  note v = find_value_empty_text_labels [OF assms(1), of env, unfolded keyword_lists_def, simplified]
  have n: "find_number_after_keyword env self kws = 0"
    if "find_value_after_keyword env self kws None = None" for kws
    using that by (rule find_number_unresolved)
  show ?thesis
    by (simp add: parse_full_document_def extract_loan_info_eq extract_customer_info_def
        extract_collateral_info_def extract_financial_info_def Let_def py_or_def py_int_def
        v n assms(1))
qed

text \<open>Some fields of the empty document, read from the result.\<close>

theorem empty_document_defaults_witness:
  "document_field env0 doc_empty ''customer_info'' ''name'' = Some (PStr []) \<and>
   document_field env0 doc_empty ''loan_info'' ''interest_rate'' = Some (PFloat (17 / 2)) \<and>
   document_field env0 doc_empty ''collateral_info'' ''ltv'' = Some (PFloat 70) \<and>
   (case parse_full_document env0 doc_empty of Inl e \<Rightarrow> None | Inr d \<Rightarrow> map_of d ''raw_text'') =
     Some (PStr [])"
proof -
  have "text_content doc_empty = []" and "tables doc_empty = []"
    by (simp_all add: doc_empty_def)
  from empty_document_defaults [OF this, of env0]
  show ?thesis by (simp add: document_field_def)
qed

text \<open>
  Claim C4 as stated fails: in the result for the empty document the purpose and the
  legal documents are text fields that are not the empty string.
\<close>

theorem empty_document_text_fields_counterexample:
  "text_content doc_empty = [] \<and> tables doc_empty = [] \<and>
   document_field env0 doc_empty ''loan_info'' ''purpose'' = Some (PStr Kinh_doanh) \<and>
   Kinh_doanh \<noteq> [] \<and>
   document_field env0 doc_empty ''collateral_info'' ''legal_docs'' = Some (PStr So_do_Giay_chung_nhan) \<and>
   So_do_Giay_chung_nhan \<noteq> []"
  by (simp add: document_field_def parse_full_document_def extract_loan_info_eq
      extract_collateral_info_def extract_customer_info_def extract_financial_info_def
      doc_empty_def keyword_defs run_simps
      Kinh_doanh_def So_do_Giay_chung_nhan_def)

section \<open>Every field is populated\<close>

lemma py_or_located:
  "py_or x d = (case x of None \<Rightarrow> d | Some v \<Rightarrow> if v = [] then d else v)"
  by (simp add: py_or_def)

lemma not_double_inf_120: "\<not> double_inf 120"
  by (simp add: double_inf_def)

lemma extract_loan_info_double_Inr:
  assumes "extract_loan_info_double env self = Inr d"
  shows "extract_loan_info env self = Inr d"
  using assms by (simp add: extract_loan_info_double_eq split: if_splits)

text \<open>
  Claim C8, as amended. Each of the four extractors, whenever it returns, returns a
  dictionary with exactly its named fields, in the order of the source, none of them
  \<^verbatim>\<open>None\<close>, and the assembly, whenever it returns, returns exactly the four groups
  and the raw text. Each field is the located value, a derivation, or its default: a
  text field is the value located for its labels, or its default when nothing or the
  empty string is located; a numeric field is the number located, which is 0 when
  nothing is located, or the default of the field in place of 0 (8.5, 120, 70), or the
  derivation (loan amount, equity ratio). The default of a text field is the empty
  string for the customer fields and the address of the asset only: the purpose, the
  type of the asset and the legal documents have a named constant as default, and the
  payment frequency is a constant. The extractors of customer, collateral and
  financial data always return; for the loan extractor and the assembly, which convert
  the loan term with \<^verbatim>\<open>int\<close>, the statement is about the calls that return.
\<close>

theorem every_field_populated:
  fixes env :: env and self :: docx_parser
  defines "located \<equiv> \<lambda>kws d.
      (case find_value_after_keyword env self kws None of
         None \<Rightarrow> d
       | Some v \<Rightarrow> if v = [] then d else v)"
    and "number \<equiv> find_number_after_keyword env self"
    and "customer \<equiv> map_of (extract_customer_info env self)"
    and "collateral \<equiv> map_of (extract_collateral_info env self)"
    and "financial \<equiv> map_of (extract_financial_info env self)"
  shows
    "populated [''name'', ''cccd'', ''address'', ''phone''] (extract_customer_info env self) \<and>
     populated [''asset_type'', ''market_value'', ''asset_address'', ''ltv'', ''legal_docs'']
       (extract_collateral_info env self) \<and>
     populated [''monthly_income'', ''monthly_expense'', ''other_debt'']
       (extract_financial_info env self) \<and>
     (\<forall>d. extract_loan_info_double env self = Inr d \<longrightarrow>
        populated [''purpose'', ''total_need'', ''equity'', ''loan_amount'', ''equity_ratio'',
                   ''interest_rate'', ''loan_term'', ''payment_frequency''] d \<and>
        map_of d ''purpose'' = Some (PStr (located purpose_keywords Kinh_doanh)) \<and>
        map_of d ''total_need'' = Some (PFloat (number total_need_keywords)) \<and>
        map_of d ''equity'' = Some (PFloat (number equity_keywords)) \<and>
        map_of d ''loan_amount'' =
          Some (PFloat (if number loan_amount_keywords = 0 \<and> number total_need_keywords > 0
                        then number total_need_keywords - number equity_keywords
                        else number loan_amount_keywords)) \<and>
        map_of d ''equity_ratio'' =
          Some (if number total_need_keywords > 0
                then PFloat (number equity_keywords / number total_need_keywords * 100)
                else PInt 0) \<and>
        map_of d ''interest_rate'' =
          Some (PFloat (if number interest_rate_keywords = 0 then 17 / 2
                        else number interest_rate_keywords)) \<and>
        map_of d ''loan_term'' =
          Some (PInt (py_int (if number loan_term_keywords = 0 then 120
                              else number loan_term_keywords))) \<and>
        map_of d ''payment_frequency'' = Some (PStr Thang)) \<and>
     (\<forall>d. parse_full_document_double env self = Inr d \<longrightarrow>
        (\<exists>l. extract_loan_info_double env self = Inr l \<and>
           d = [(''customer_info'', PDict (extract_customer_info env self)),
                (''loan_info'', PDict l),
                (''collateral_info'', PDict (extract_collateral_info env self)),
                (''financial_info'', PDict (extract_financial_info env self)),
                (''raw_text'', PStr (text_content self))])) \<and>
     customer ''name'' = Some (PStr (located name_keywords [])) \<and>
     customer ''cccd'' = Some (PStr (located cccd_keywords [])) \<and>
     customer ''address'' = Some (PStr (located address_keywords [])) \<and>
     customer ''phone'' = Some (PStr (located phone_keywords [])) \<and>
     collateral ''asset_type'' = Some (PStr (located asset_type_keywords Bat_dong_san)) \<and>
     collateral ''market_value'' = Some (PFloat (number market_value_keywords)) \<and>
     collateral ''asset_address'' = Some (PStr (located asset_address_keywords [])) \<and>
     collateral ''ltv'' =
        Some (PFloat (if number ltv_keywords = 0 then 70 else number ltv_keywords)) \<and>
     collateral ''legal_docs'' = Some (PStr (located legal_docs_keywords So_do_Giay_chung_nhan)) \<and>
     financial ''monthly_income'' = Some (PFloat (number monthly_income_keywords)) \<and>
     financial ''monthly_expense'' = Some (PFloat (number monthly_expense_keywords)) \<and>
     financial ''other_debt'' = Some (PFloat (number other_debt_keywords)) \<and>
     (\<forall>kws. find_value_after_keyword env self kws None = None \<longrightarrow>
        number kws = 0 \<and> (\<forall>d. located kws d = d))"
proof -
  have p1: "populated [''name'', ''cccd'', ''address'', ''phone''] (extract_customer_info env self)"
    by (simp add: populated_def extract_customer_info_def)
  have p3: "populated [''asset_type'', ''market_value'', ''asset_address'', ''ltv'', ''legal_docs'']
       (extract_collateral_info env self)"
    by (simp add: populated_def extract_collateral_info_def Let_def)
  have p4: "populated [''monthly_income'', ''monthly_expense'', ''other_debt'']
       (extract_financial_info env self)"
    by (simp add: populated_def extract_financial_info_def Let_def)
  have l: "\<forall>d. extract_loan_info_double env self = Inr d \<longrightarrow>
        populated [''purpose'', ''total_need'', ''equity'', ''loan_amount'', ''equity_ratio'',
                   ''interest_rate'', ''loan_term'', ''payment_frequency''] d \<and>
        map_of d ''purpose'' = Some (PStr (located purpose_keywords Kinh_doanh)) \<and>
        map_of d ''total_need'' = Some (PFloat (number total_need_keywords)) \<and>
        map_of d ''equity'' = Some (PFloat (number equity_keywords)) \<and>
        map_of d ''loan_amount'' =
          Some (PFloat (if number loan_amount_keywords = 0 \<and> number total_need_keywords > 0
                        then number total_need_keywords - number equity_keywords
                        else number loan_amount_keywords)) \<and>
        map_of d ''equity_ratio'' =
          Some (if number total_need_keywords > 0
                then PFloat (number equity_keywords / number total_need_keywords * 100)
                else PInt 0) \<and>
        map_of d ''interest_rate'' =
          Some (PFloat (if number interest_rate_keywords = 0 then 17 / 2
                        else number interest_rate_keywords)) \<and>
        map_of d ''loan_term'' =
          Some (PInt (py_int (if number loan_term_keywords = 0 then 120
                              else number loan_term_keywords))) \<and>
        map_of d ''payment_frequency'' = Some (PStr Thang)"
  proof (intro allI impI)
    fix d assume "extract_loan_info_double env self = Inr d"
    then have d: "extract_loan_info env self = Inr d"
      by (rule extract_loan_info_double_Inr)
    then have f: "map_of d key = loan_field env self key" for key
      by (simp add: loan_field_def)
    from d have pop: "populated [''purpose'', ''total_need'', ''equity'', ''loan_amount'',
                   ''equity_ratio'', ''interest_rate'', ''loan_term'', ''payment_frequency''] d"
      by (auto simp: populated_def extract_loan_info_eq)
    have v: "loan_field env self ''purpose'' = Some (PStr (located purpose_keywords Kinh_doanh))"
      "loan_field env self ''total_need'' = Some (PFloat (number total_need_keywords))"
      "loan_field env self ''equity'' = Some (PFloat (number equity_keywords))"
      "loan_field env self ''loan_amount'' =
          Some (PFloat (if number loan_amount_keywords = 0 \<and> number total_need_keywords > 0
                        then number total_need_keywords - number equity_keywords
                        else number loan_amount_keywords))"
      "loan_field env self ''equity_ratio'' =
          Some (if number total_need_keywords > 0
                then PFloat (number equity_keywords / number total_need_keywords * 100)
                else PInt 0)"
      "loan_field env self ''interest_rate'' =
          Some (PFloat (if number interest_rate_keywords = 0 then 17 / 2
                        else number interest_rate_keywords))"
      "loan_field env self ''loan_term'' =
          Some (PInt (py_int (if number loan_term_keywords = 0 then 120
                              else number loan_term_keywords)))"
      "loan_field env self ''payment_frequency'' = Some (PStr Thang)"
      by (simp_all only: located_def number_def loan_field_simps py_or_located)
    from pop v show "populated [''purpose'', ''total_need'', ''equity'', ''loan_amount'', ''equity_ratio'',
                   ''interest_rate'', ''loan_term'', ''payment_frequency''] d \<and>
        map_of d ''purpose'' = Some (PStr (located purpose_keywords Kinh_doanh)) \<and>
        map_of d ''total_need'' = Some (PFloat (number total_need_keywords)) \<and>
        map_of d ''equity'' = Some (PFloat (number equity_keywords)) \<and>
        map_of d ''loan_amount'' =
          Some (PFloat (if number loan_amount_keywords = 0 \<and> number total_need_keywords > 0
                        then number total_need_keywords - number equity_keywords
                        else number loan_amount_keywords)) \<and>
        map_of d ''equity_ratio'' =
          Some (if number total_need_keywords > 0
                then PFloat (number equity_keywords / number total_need_keywords * 100)
                else PInt 0) \<and>
        map_of d ''interest_rate'' =
          Some (PFloat (if number interest_rate_keywords = 0 then 17 / 2
                        else number interest_rate_keywords)) \<and>
        map_of d ''loan_term'' =
          Some (PInt (py_int (if number loan_term_keywords = 0 then 120
                              else number loan_term_keywords))) \<and>
        map_of d ''payment_frequency'' = Some (PStr Thang)"
      by (simp only: f simp_thms)
  qed
  have p5: "\<forall>d. parse_full_document_double env self = Inr d \<longrightarrow>
        (\<exists>l. extract_loan_info_double env self = Inr l \<and>
           d = [(''customer_info'', PDict (extract_customer_info env self)),
                (''loan_info'', PDict l),
                (''collateral_info'', PDict (extract_collateral_info env self)),
                (''financial_info'', PDict (extract_financial_info env self)),
                (''raw_text'', PStr (text_content self))])"
    by (auto simp: parse_full_document_double_def Let_def split: sum.splits)
  have c: "customer ''name'' = Some (PStr (located name_keywords []))"
    "customer ''cccd'' = Some (PStr (located cccd_keywords []))"
    "customer ''address'' = Some (PStr (located address_keywords []))"
    "customer ''phone'' = Some (PStr (located phone_keywords []))"
    by (simp_all add: located_def customer_def extract_customer_info_def py_or_located)
  have k: "collateral ''asset_type'' = Some (PStr (located asset_type_keywords Bat_dong_san))"
    "collateral ''market_value'' = Some (PFloat (number market_value_keywords))"
    "collateral ''asset_address'' = Some (PStr (located asset_address_keywords []))"
    "collateral ''ltv'' =
        Some (PFloat (if number ltv_keywords = 0 then 70 else number ltv_keywords))"
    "collateral ''legal_docs'' = Some (PStr (located legal_docs_keywords So_do_Giay_chung_nhan))"
    by (simp_all add: located_def collateral_def number_def extract_collateral_info_def Let_def
        py_or_located)
  have f: "financial ''monthly_income'' = Some (PFloat (number monthly_income_keywords))"
    "financial ''monthly_expense'' = Some (PFloat (number monthly_expense_keywords))"
    "financial ''other_debt'' = Some (PFloat (number other_debt_keywords))"
    by (simp_all add: financial_def number_def extract_financial_info_def Let_def)
  have u: "\<forall>kws. find_value_after_keyword env self kws None = None \<longrightarrow>
        number kws = 0 \<and> (\<forall>d. located kws d = d)"
    by (simp add: number_def located_def find_number_unresolved)
  from p1 p3 p4 l p5 c k f u show ?thesis
    by (intro conjI)
qed

text \<open>
  The text with the total need and the equity has no label of the customer name, the
  purpose, the loan term or the loan-to-value ratio, and the total need is located; the
  loan extractor returns for it.
\<close>

theorem every_field_populated_witness:
  "map_of (extract_customer_info env0 doc_need_equity) ''name'' = Some (PStr []) \<and>
   (\<exists>d. extract_loan_info_double env0 doc_need_equity = Inr d \<and>
      map_of d ''purpose'' = Some (PStr Kinh_doanh) \<and>
      map_of d ''total_need'' = Some (PFloat 1000000000) \<and>
      map_of d ''loan_term'' = Some (PInt 120)) \<and>
   map_of (extract_collateral_info env0 doc_need_equity) ''ltv'' = Some (PFloat 70)"
proof -
  have u: "find_value_after_keyword env0 doc_need_equity name_keywords None = None"
    "find_value_after_keyword env0 doc_need_equity purpose_keywords None = None"
    "find_value_after_keyword env0 doc_need_equity loan_term_keywords None = None"
    "find_value_after_keyword env0 doc_need_equity ltv_keywords None = None"
    by (simp_all add: doc_need_equity_def keyword_defs run_simps)
  have n: "find_number_after_keyword env0 doc_need_equity total_need_keywords = 1000000000"
    by (simp add: doc_need_equity_def total_need_keywords_def run_simps)
  have "extract_loan_info_double env0 doc_need_equity = extract_loan_info env0 doc_need_equity"
    by (simp add: extract_loan_info_double_eq find_number_unresolved u not_double_inf_120)
  then obtain d where d: "extract_loan_info_double env0 doc_need_equity = Inr d"
    by (simp add: extract_loan_info_eq)
  from every_field_populated [of env0 doc_need_equity] u n d
  have "map_of (extract_customer_info env0 doc_need_equity) ''name'' = Some (PStr []) \<and>
      map_of d ''purpose'' = Some (PStr Kinh_doanh) \<and>
      map_of d ''total_need'' = Some (PFloat 1000000000) \<and>
      map_of d ''loan_term'' = Some (PInt 120) \<and>
      map_of (extract_collateral_info env0 doc_need_equity) ''ltv'' = Some (PFloat 70)"
    by (simp add: find_number_unresolved py_int_def)
  with d show ?thesis by blast
qed

text \<open>
  Claim C8 as stated fails: on the empty text nothing is located for the type of the
  asset, and the field is not the empty string.
\<close>

theorem unresolved_text_field_not_empty_counterexample:
  "find_value_after_keyword env0 doc_empty asset_type_keywords None = None \<and>
   map_of (extract_collateral_info env0 doc_empty) ''asset_type'' = Some (PStr Bat_dong_san) \<and>
   Bat_dong_san \<noteq> []"
  by (simp add: extract_collateral_info_def doc_empty_def asset_type_keywords_def
      Bat_dong_san_def run_simps)

end
